theory Spec2Isabelle
  imports Complex_Main "HOL-Library.AList"
begin

unbundle bit_operations_syntax

section \<open>Procedural forest terrain: the generator and the chunk store of main.py\<close>

text \<open>
  The embedding follows \<^verbatim>\<open>src/main.py\<close>. Python's unbounded integers are \<open>int\<close>.
  Python's floats are modelled as the real numbers: every arithmetic operation is the
  exact one, \<open>math.pi\<close> is \<open>pi\<close>, and \<open>sin\<close> and \<open>cos\<close> are the real functions.
  Rounding, overflow of the float range and NaN are therefore outside this model; every
  statement below is one about the exact arithmetic the code writes down.
\<close>

subsection \<open>Constants\<close>

definition SCREEN_WIDTH :: int where "SCREEN_WIDTH = 1280"
definition SCREEN_HEIGHT :: int where "SCREEN_HEIGHT = 720"
definition TILE_WIDTH :: int where "TILE_WIDTH = 128"
definition TILE_HEIGHT :: int where "TILE_HEIGHT = 64"
definition CHUNK_SIZE :: int where "CHUNK_SIZE = 16"
definition RENDER_DISTANCE :: int where "RENDER_DISTANCE = 4"
definition MASTER_SEED :: int where "MASTER_SEED = 12345"

definition LAYER_NAME_GROUND :: string where "LAYER_NAME_GROUND = ''Ground''"
definition LAYER_NAME_OBJECTS :: string where "LAYER_NAME_OBJECTS = ''Objects''"
definition LAYER_NAME_WALLS :: string where "LAYER_NAME_WALLS = ''Walls''"

lemmas consts_defs = SCREEN_WIDTH_def SCREEN_HEIGHT_def TILE_WIDTH_def TILE_HEIGHT_def
  CHUNK_SIZE_def RENDER_DISTANCE_def MASTER_SEED_def

subsection \<open>Python's numeric operators\<close>

text \<open>
  \<open>a % b\<close> on floats: for a positive modulus the result is \<open>a - b * floor (a / b)\<close>, the
  remainder with the sign of \<open>b\<close>. Every modulus in the source is a positive constant
  (\<open>2 * pi\<close> or \<open>2 ** 31 - 1\<close>), so the \<open>ZeroDivisionError\<close> of \<open>b = 0\<close> cannot occur.
\<close>

definition py_fmod :: "real \<Rightarrow> real \<Rightarrow> real" where
  "py_fmod a b = a - b * of_int \<lfloor>a / b\<rfloor>"

text \<open>\<open>int(v)\<close> on a float drops the fractional part: it rounds toward zero.\<close>

definition py_int :: "real \<Rightarrow> int" where
  "py_int v = (if v < 0 then - \<lfloor>- v\<rfloor> else \<lfloor>v\<rfloor>)"

subsection \<open>QuantumState\<close>

record QuantumState =
  phase :: real

definition QuantumState_init :: "int \<Rightarrow> int \<Rightarrow> QuantumState" where
  "QuantumState_init x y =
     \<lparr>phase = py_fmod (of_int x * 0.1234 + of_int y * 0.4321
                        + sin (of_int x * 0.1) * cos (of_int y * 0.1)) (2 * pi)\<rparr>"

definition hadamard :: "QuantumState \<Rightarrow> QuantumState" where
  "hadamard q = q\<lparr>phase := py_fmod (phase q + pi / 4) (2 * pi)\<rparr>"

definition rotate :: "real \<Rightarrow> QuantumState \<Rightarrow> QuantumState" where
  "rotate angle q = q\<lparr>phase := py_fmod (phase q + angle) (2 * pi)\<rparr>"

text \<open>\<open>measure\<close> assigns nothing: its model returns the value only, the state is untouched.\<close>

definition measure_q :: "QuantumState \<Rightarrow> real" where
  "measure_q q = (cos (phase q) + 1) / 2"

subsection \<open>quantum\_terrain\<close>

text \<open>The first half of \<open>quantum_terrain\<close> (lines 58 to 71): the value of \<open>combined\<close>.\<close>

definition quantum_density :: "int \<Rightarrow> int \<Rightarrow> real" where
  "quantum_density tile_x tile_y =
     (let q = QuantumState_init tile_x tile_y;
          q = hadamard q;
          angle = py_fmod (of_int tile_x * 0.314 + of_int tile_y * 0.271
                           + sin (of_int tile_x * 0.05) * 3.14) (2 * pi);
          q = rotate angle q;
          q = hadamard q;
          q = rotate (py_fmod (of_int (tile_x * tile_y) * 0.001) (2 * pi)) q
      in measure_q q)"

definition quantum_variation :: "int \<Rightarrow> int \<Rightarrow> real" where
  "quantum_variation tile_x tile_y =
     (let q2 = QuantumState_init tile_y tile_x;
          q2 = hadamard q2;
          q2 = rotate (of_int tile_x * 0.1) q2
      in measure_q q2)"

definition quantum_combined :: "int \<Rightarrow> int \<Rightarrow> real" where
  "quantum_combined tile_x tile_y =
     (let density = quantum_density tile_x tile_y;
          variation = quantum_variation tile_x tile_y
      in (density + variation * 0.5) / 1.5)"

text \<open>The second half (lines 73 to 86): the chain of comparisons on \<open>combined\<close>.\<close>

definition quantum_bands :: "real \<Rightarrow> int \<Rightarrow> int \<Rightarrow> string option" where
  "quantum_bands combined tile_x tile_y =
     (if combined < 0.65 then None
      else if combined < 0.68 then Some ''tree_thin_fall''
      else if combined < 0.70 then Some ''tree_default_fall''
      else if combined < 0.72 then Some ''tree_oak_fall''
      else if combined < 0.75 then Some ''stone_large''
      else if combined < 0.77 then Some ''log''
      else if (tile_x + tile_y) mod 3 = 0 then Some ''stone_tall'' else Some ''bush_small'')"

definition quantum_terrain :: "int \<Rightarrow> int \<Rightarrow> string option" where
  "quantum_terrain tile_x tile_y = quantum_bands (quantum_combined tile_x tile_y) tile_x tile_y"

subsection \<open>Projection and chunk addressing\<close>

definition iso_to_screen :: "int \<Rightarrow> int \<Rightarrow> real \<times> real" where
  "iso_to_screen iso_x iso_y =
     (of_int (iso_x - iso_y) * (of_int TILE_WIDTH / 2),
      of_int (iso_x + iso_y) * (of_int TILE_HEIGHT / 2))"

definition screen_to_chunk :: "real \<Rightarrow> real \<Rightarrow> int \<times> int" where
  "screen_to_chunk screen_x screen_y =
     (let tiles_per_chunk = CHUNK_SIZE;
          chunk_x = py_int (screen_x / (of_int (TILE_WIDTH * tiles_per_chunk) / 2));
          chunk_y = py_int (screen_y / (of_int (TILE_HEIGHT * tiles_per_chunk) / 2))
      in (chunk_x, chunk_y))"

definition get_chunk_seed :: "int \<Rightarrow> int \<Rightarrow> int" where
  "get_chunk_seed chunk_x chunk_y =
     (let center_x = chunk_x * CHUNK_SIZE + CHUNK_SIZE div 2;
          center_y = chunk_y * CHUNK_SIZE + CHUNK_SIZE div 2;
          combined = of_int MASTER_SEED * sin (of_int center_x * 0.1) * cos (of_int center_y * 0.1);
          combined = combined + of_int ((center_x * 73856093) XOR (center_y * 19349663))
      in py_int (py_fmod \<bar>combined * 1000\<bar> (2 ^ 31 - 1)))"

subsection \<open>Collision geometry\<close>

text \<open>\<open>sub in s\<close> on strings: \<open>sub\<close> occurs in \<open>s\<close> as a contiguous piece.\<close>

fun py_in_str :: "string \<Rightarrow> string \<Rightarrow> bool" where
  "py_in_str sub [] = (sub = [])"
| "py_in_str sub (c # cs) = (take (length sub) (c # cs) = sub \<or> py_in_str sub cs)"

definition get_hitbox_for_element :: "string \<Rightarrow> (real \<times> real) list" where
  "get_hitbox_for_element element =
     (let hitbox_width = of_int TILE_WIDTH * 0.3;
          hitbox_height = of_int TILE_HEIGHT * 0.3
      in if py_in_str ''tree'' element then
           [(- hitbox_width * 0.45, - hitbox_height * 3.0),
            (hitbox_width * 0.45, - hitbox_height * 3.0),
            (hitbox_width * 0.45, hitbox_height * 0.8),
            (- hitbox_width * 0.45, hitbox_height * 0.8)]
         else if element = ''stone_large'' then
           [(- hitbox_width * 0.8, - hitbox_height * 1.2),
            (hitbox_width * 0.8, - hitbox_height * 1.2),
            (hitbox_width * 0.8, hitbox_height * 0.6),
            (- hitbox_width * 0.8, hitbox_height * 0.6)]
         else if element \<in> set [''log'', ''log_large''] then
           [(- hitbox_width * 0.9, - hitbox_height * 1.0),
            (hitbox_width * 0.9, - hitbox_height * 1.0),
            (hitbox_width * 0.9, hitbox_height * 0.5),
            (- hitbox_width * 0.9, hitbox_height * 0.5)]
         else if element = ''stone_tall'' then
           [(- hitbox_width * 0.6, - hitbox_height * 0.8),
            (hitbox_width * 0.6, - hitbox_height * 0.8),
            (hitbox_width * 0.6, hitbox_height * 0.4),
            (- hitbox_width * 0.6, hitbox_height * 0.4)]
         else
           [(- hitbox_width / 2, - hitbox_height / 2),
            (hitbox_width / 2, - hitbox_height / 2),
            (hitbox_width / 2, hitbox_height / 2),
            (- hitbox_width / 2, hitbox_height / 2)])"

definition collision_types :: "string list" where
  "collision_types =
     [''tree_blocks_fall'', ''tree_fat_fall'', ''tree_thin_fall'', ''tree_tall_fall'',
      ''tree_default_fall'', ''tree_oak_fall'',
      ''stone_tall'', ''stone_large'', ''log'', ''log_large'']"

definition has_collision :: "string \<Rightarrow> bool" where
  "has_collision element_type = (element_type \<in> set collision_types)"

subsection \<open>Sprites, the scene and the window\<close>

text \<open>
  The \<open>arcade\<close> library is outside the repository. A sprite is the record of the attributes
  the code assigns; a loaded texture is identified by a name; the scene maps a layer name to
  the list of sprites added to it, in the order of the \<open>add_sprite\<close> calls. A hit box of
  \<open>None\<close> is the library's default one.
\<close>

type_synonym Texture = string

record HitBox =
  points :: "(real \<times> real) list"
  position :: "real \<times> real"

record Sprite =
  texture :: Texture
  center_x :: real
  center_y :: real
  iso_x :: "int option"
  iso_y :: "int option"
  hit_box :: "HitBox option"

type_synonym Scene = "string \<Rightarrow> Sprite list"

definition add_sprite :: "string \<Rightarrow> Sprite \<Rightarrow> Scene \<Rightarrow> Scene" where
  "add_sprite name sprite scn = scn(name := scn name @ [sprite])"

text \<open>The dictionary \<open>chunk_sprites\<close> of \<open>create_chunk\<close>, with its three fixed keys.\<close>

record ChunkSprites =
  ground :: "Sprite list"
  objects :: "Sprite list"
  walls :: "Sprite list"

text \<open>
  The attributes of the window that chunk streaming reads or writes. \<open>chunks\<close> is a Python
  dictionary: an association list with unique keys, in insertion order.
\<close>

record Window =
  camera_position :: "real \<times> real"
  scene :: Scene
  textures :: "string \<rightharpoonup> Texture"
  chunks :: "((int \<times> int) \<times> ChunkSprites) list"
  terrain_mode :: string

datatype py_error = KeyError | LoadError

text \<open>\<open>range(n)\<close> and \<open>range(a, b)\<close> over the integers.\<close>

definition py_range :: "int \<Rightarrow> int \<Rightarrow> int list" where
  "py_range a b = [a..b - 1]"

text \<open>A \<open>for\<close> loop whose body may raise: the first error ends the loop.\<close>

fun for_each :: "('a \<Rightarrow> 's \<Rightarrow> py_error + 's) \<Rightarrow> 'a list \<Rightarrow> 's \<Rightarrow> py_error + 's" where
  "for_each body [] s = Inr s"
| "for_each body (x # xs) s =
     (case body x s of Inl e \<Rightarrow> Inl e | Inr s' \<Rightarrow> for_each body xs s')"

subsection \<open>load\_textures\<close>

text \<open>
  \<open>load_textures\<close> (lines 207 to 234) fills the table key by key, in the order of the
  source, inside one \<open>try\<close>. \<open>arcade.load_texture\<close> is outside the repository: it is the
  parameter \<open>load_texture\<close>, which gives the texture of a path or \<open>None\<close> where the library
  raises. The first load that raises ends the \<open>try\<close> block: the keys assigned before it stay,
  the later ones are never assigned, and the handler assigns the fallback texture to
  \<open>'grass'\<close>. An exception of that last load is not caught.
\<close>

definition texture_files :: "(string \<times> string) list" where
  "texture_files =
     [(''grass'', ''assets/terrain/ground_grass_NE.png''),
      (''tree_blocks_fall'', ''assets/terrain/tree_blocks_fall_NE.png''),
      (''tree_default_fall'', ''assets/terrain/tree_default_fall_NE.png''),
      (''tree_fat_fall'', ''assets/terrain/tree_fat_fall_NE.png''),
      (''tree_thin_fall'', ''assets/terrain/tree_thin_fall_NE.png''),
      (''tree_oak_fall'', ''assets/terrain/tree_oak_fall_NE.png''),
      (''stone_tall'', ''assets/terrain/stone_tallG_NE.png''),
      (''stone_large'', ''assets/terrain/stone_largeC_NE.png''),
      (''bush_small'', ''assets/terrain/plant_bushSmall_NE.png''),
      (''log'', ''assets/terrain/log_NE.png''),
      (''log_large'', ''assets/terrain/log_large_NE.png'')]"

fun load_each ::
  "(string \<Rightarrow> Texture option) \<Rightarrow> (string \<times> string) list \<Rightarrow> (string \<rightharpoonup> Texture)
     \<Rightarrow> bool \<times> (string \<rightharpoonup> Texture)" where
  "load_each load_texture [] table = (True, table)"
| "load_each load_texture (f # fs) table =
     (case load_texture (snd f) of
        None \<Rightarrow> (False, table)
      | Some tex \<Rightarrow> load_each load_texture fs (table(fst f \<mapsto> tex)))"

definition load_textures ::
  "(string \<Rightarrow> Texture option) \<Rightarrow> (string \<rightharpoonup> Texture) \<Rightarrow> py_error + (string \<rightharpoonup> Texture)" where
  "load_textures load_texture table =
     (case load_each load_texture texture_files table of
        (True, table) \<Rightarrow> Inr table
      | (False, table) \<Rightarrow>
          (case load_texture '':resources:images/tiles/grassCenter.png'' of
             None \<Rightarrow> Inl LoadError
           | Some tex \<Rightarrow> Inr (table(''grass'' \<mapsto> tex))))"

subsection \<open>The seeded uniform generator\<close>

text \<open>
  \<open>random.Random\<close> belongs to Python's standard library. A generator is the sequence of
  its draws and the number of draws made so far; \<open>random()\<close> returns the next draw. The
  function from a seed to its generator, \<open>random.Random(seed)\<close>, is a parameter
  (\<open>new_Random\<close>) of every definition that seeds one.
\<close>

type_synonym Random = "(nat \<Rightarrow> real) \<times> nat"

definition random :: "Random \<Rightarrow> real \<times> Random" where
  "random rng = (fst rng (snd rng), (fst rng, Suc (snd rng)))"

subsection \<open>generate\_terrain\_element\<close>

definition generate_terrain_element ::
  "Window \<Rightarrow> int \<Rightarrow> int \<Rightarrow> Random \<Rightarrow> string option \<times> Random" where
  "generate_terrain_element self tile_x tile_y rng =
     (if terrain_mode self = ''quantum'' then (quantum_terrain tile_x tile_y, rng)
      else
        let (noise, rng) = random rng in
        if noise < 0.35 then
          (let (tree_type, rng) = random rng in
           if tree_type < 0.3 then (Some ''tree_blocks_fall'', rng)
           else if tree_type < 0.5 then (Some ''tree_oak_fall'', rng)
           else if tree_type < 0.7 then (Some ''tree_default_fall'', rng)
           else if tree_type < 0.85 then (Some ''tree_fat_fall'', rng)
           else (Some ''tree_thin_fall'', rng))
        else if noise < 0.40 then
          (let (v, rng) = random rng in
           (if v < 0.7 then Some ''stone_tall'' else Some ''stone_large'', rng))
        else if noise < 0.43 then
          (let (v, rng) = random rng in
           (if v < 0.6 then Some ''log'' else Some ''log_large'', rng))
        else if noise < 0.48 then (Some ''bush_small'', rng)
        else (None, rng))"

subsection \<open>create\_chunk\<close>

text \<open>
  The body of the two nested loops of \<open>create_chunk\<close>, for one tile, in two parts. The
  second part (lines 416 to 437) places the generated element: only when it is truthy (not
  \<open>None\<close>, not the empty string) and its texture is in the table; a collidable element gets
  its hit box and goes to the walls, any other one goes to the objects.
\<close>

definition place_element ::
  "int \<Rightarrow> int \<Rightarrow> real \<Rightarrow> real \<Rightarrow> string option \<Rightarrow> Window \<times> ChunkSprites \<Rightarrow> Window \<times> ChunkSprites" where
  "place_element tile_x tile_y screen_x screen_y element st =
     (case st of (self, chunk_sprites) \<Rightarrow>
      (case (case element of None \<Rightarrow> None
                           | Some e \<Rightarrow> if e \<noteq> [] then map_option (Pair e) (textures self e) else None) of
         None \<Rightarrow> (self, chunk_sprites)
       | Some (e, tex) \<Rightarrow>
           (let detail_sprite = \<lparr>texture = tex, center_x = screen_x, center_y = screen_y,
                                  iso_x = Some tile_x, iso_y = Some tile_y, hit_box = None\<rparr>
            in if has_collision e then
                 (let hitbox_points = get_hitbox_for_element e;
                      detail_sprite = detail_sprite\<lparr>hit_box :=
                        Some \<lparr>points = hitbox_points,
                              position = (center_x detail_sprite, center_y detail_sprite)\<rparr>\<rparr>
                  in (self\<lparr>scene := add_sprite LAYER_NAME_WALLS detail_sprite (scene self)\<rparr>,
                      chunk_sprites\<lparr>walls := walls chunk_sprites @ [detail_sprite]\<rparr>))
               else
                 (self\<lparr>scene := add_sprite LAYER_NAME_OBJECTS detail_sprite (scene self)\<rparr>,
                  chunk_sprites\<lparr>objects := objects chunk_sprites @ [detail_sprite]\<rparr>))))"

text \<open>
  The whole body (lines 401 to 437). Its state is the generator, the window (whose scene it
  extends) and the lists of the chunk under construction. \<open>self.textures['grass']\<close> raises
  \<open>KeyError\<close> when the table has no grass texture.
\<close>

definition create_tile ::
  "int \<Rightarrow> int \<Rightarrow> Random \<times> Window \<times> ChunkSprites \<Rightarrow> py_error + Random \<times> Window \<times> ChunkSprites" where
  "create_tile tile_x tile_y st =
     (case st of (rng, self, chunk_sprites) \<Rightarrow>
      (let (screen_x, screen_y) = iso_to_screen tile_x tile_y in
       (case textures self ''grass'' of
          None \<Rightarrow> Inl KeyError
        | Some grass \<Rightarrow>
            (let grass_sprite = \<lparr>texture = grass, center_x = screen_x, center_y = screen_y,
                                  iso_x = None, iso_y = None, hit_box = None\<rparr>;
                 self = self\<lparr>scene := add_sprite LAYER_NAME_GROUND grass_sprite (scene self)\<rparr>;
                 chunk_sprites = chunk_sprites\<lparr>ground := ground chunk_sprites @ [grass_sprite]\<rparr>;
                 (element, rng) = generate_terrain_element self tile_x tile_y rng;
                 (self, chunk_sprites) =
                    place_element tile_x tile_y screen_x screen_y element (self, chunk_sprites)
             in Inr (rng, self, chunk_sprites)))))"

text \<open>
  \<open>create_chunk\<close>: the loop \<open>for x in range(CHUNK_SIZE): for y in range(CHUNK_SIZE)\<close> visits
  the pairs \<open>(x, y)\<close> in the order of \<open>List.product\<close>. The result is the returned dictionary
  and the window with its scene extended.
\<close>

definition create_chunk ::
  "(int \<Rightarrow> Random) \<Rightarrow> Window \<Rightarrow> int \<Rightarrow> int \<Rightarrow> py_error + ChunkSprites \<times> Window" where
  "create_chunk new_Random self chunk_x chunk_y =
     (let chunk_seed = get_chunk_seed chunk_x chunk_y;
          rng = new_Random chunk_seed;
          start_tile_x = chunk_x * CHUNK_SIZE;
          start_tile_y = chunk_y * CHUNK_SIZE;
          chunk_sprites = \<lparr>ground = [], objects = [], walls = []\<rparr>
      in case for_each (\<lambda>(x, y). create_tile (start_tile_x + x) (start_tile_y + y))
                (List.product (py_range 0 CHUNK_SIZE) (py_range 0 CHUNK_SIZE))
                (rng, self, chunk_sprites) of
           Inl e \<Rightarrow> Inl e
         | Inr (rng, self, chunk_sprites) \<Rightarrow> Inr (chunk_sprites, self))"

subsection \<open>update\_chunks\<close>

text \<open>
  The body of \<open>update_chunks\<close> from line 448 on, for a center chunk and a render distance
  \<open>r\<close> (the source's \<open>RENDER_DISTANCE\<close>). \<open>chunks_needed\<close> is a Python set, whose
  iteration order the language leaves open; the model iterates it in the order of insertion.
  No pair is inserted twice, so the list has no duplicates.
\<close>

definition chunks_needed_of :: "int \<Rightarrow> int \<times> int \<Rightarrow> (int \<times> int) list" where
  "chunks_needed_of r center =
     map (\<lambda>(dx, dy). (fst center + dx, snd center + dy))
       (List.product (py_range (- r) (r + 1)) (py_range (- r) (r + 1)))"

definition ensure_chunk ::
  "(int \<Rightarrow> Random) \<Rightarrow> int \<times> int \<Rightarrow> Window \<Rightarrow> py_error + Window" where
  "ensure_chunk new_Random chunk_pos self =
     (if chunk_pos \<notin> fst ` set (chunks self) then
        (case create_chunk new_Random self (fst chunk_pos) (snd chunk_pos) of
           Inl e \<Rightarrow> Inl e
         | Inr (chunk_sprites, self) \<Rightarrow>
             Inr (self\<lparr>chunks := AList.update chunk_pos chunk_sprites (chunks self)\<rparr>))
      else Inr self)"

definition update_chunks_around ::
  "(int \<Rightarrow> Random) \<Rightarrow> int \<Rightarrow> int \<times> int \<Rightarrow> Window \<Rightarrow> py_error + Window" where
  "update_chunks_around new_Random r center self =
     (let chunks_needed = chunks_needed_of r center;
          chunks_to_remove = filter (\<lambda>chunk_pos. chunk_pos \<notin> set chunks_needed) (map fst (chunks self));
          self = fold (\<lambda>chunk_pos self. self\<lparr>chunks := AList.delete chunk_pos (chunks self)\<rparr>)
                   chunks_to_remove self
      in for_each (ensure_chunk new_Random) chunks_needed self)"

definition update_chunks :: "(int \<Rightarrow> Random) \<Rightarrow> Window \<Rightarrow> py_error + Window" where
  "update_chunks new_Random self =
     (let center = screen_to_chunk (fst (camera_position self) + of_int SCREEN_WIDTH / 2)
                                   (snd (camera_position self) + of_int SCREEN_HEIGHT / 2)
      in update_chunks_around new_Random RENDER_DISTANCE center self)"

subsection \<open>The quantum mode as the specification words it\<close>

text \<open>
  The steps of the specification's quantum mode, written from its sections 4.1 and 4.2: a
  phase model is its phase, \<open>normalize v\<close> is \<open>v mod 2 pi\<close> in \<open>[0, 2 pi)\<close>. The factor of
  the sine term of the first rotation is the parameter \<open>k\<close>; the specification has \<open>pi\<close>
  there.
\<close>

definition spec_normalize :: "real \<Rightarrow> real" where
  "spec_normalize v = v - (2 * pi) * of_int \<lfloor>v / (2 * pi)\<rfloor>"

definition spec_PhaseModel :: "int \<Rightarrow> int \<Rightarrow> real" where
  "spec_PhaseModel x y =
     spec_normalize (of_int x * 0.1234 + of_int y * 0.4321 + sin (of_int x * 0.1) * cos (of_int y * 0.1))"

definition spec_hadamard :: "real \<Rightarrow> real" where
  "spec_hadamard p = spec_normalize (p + pi / 4)"

definition spec_rotate :: "real \<Rightarrow> real \<Rightarrow> real" where
  "spec_rotate angle p = spec_normalize (p + angle)"

definition spec_measure :: "real \<Rightarrow> real" where
  "spec_measure p = (cos p + 1) / 2"

definition spec_density :: "real \<Rightarrow> int \<Rightarrow> int \<Rightarrow> real" where
  "spec_density k x y =
     spec_measure
       (spec_rotate (spec_normalize (of_int (x * y) * 0.001))
         (spec_hadamard
           (spec_rotate (spec_normalize (of_int x * 0.314 + of_int y * 0.271 + sin (of_int x * 0.05) * k))
             (spec_hadamard (spec_PhaseModel x y)))))"

definition spec_variation :: "int \<Rightarrow> int \<Rightarrow> real" where
  "spec_variation x y =
     spec_measure (spec_rotate (of_int x * 0.1) (spec_hadamard (spec_PhaseModel y x)))"

definition spec_combined :: "real \<Rightarrow> int \<Rightarrow> int \<Rightarrow> real" where
  "spec_combined k x y = (spec_density k x y + spec_variation x y * 0.5) / 1.5"

subsection \<open>The kinds of the quantum mode\<close>

definition quantum_kinds :: "string option list" where
  "quantum_kinds = [None, Some ''tree_thin_fall'', Some ''tree_default_fall'', Some ''tree_oak_fall'',
     Some ''stone_large'', Some ''log'', Some ''stone_tall'', Some ''bush_small'']"

subsection \<open>Notions for the properties of the chunk store\<close>

text \<open>
  None of the following is code of the program. They name what the theorems speak about:
  the lists a chunk adds to the scene, layer by layer; the ground placement of a tile; the
  window at start-up; one sequence of draws of the uniform generator; and the relations
  between two runs of the tile loop that the proofs carry through it.
\<close>

definition cs_empty :: ChunkSprites where
  "cs_empty = \<lparr>ground = [], objects = [], walls = []\<rparr>"

definition cs_append :: "ChunkSprites \<Rightarrow> ChunkSprites \<Rightarrow> ChunkSprites" where
  "cs_append a b = \<lparr>ground = ground a @ ground b, objects = objects a @ objects b,
                    walls = walls a @ walls b\<rparr>"

definition layer_of :: "ChunkSprites \<Rightarrow> string \<Rightarrow> Sprite list" where
  "layer_of d name =
     (if name = LAYER_NAME_GROUND then ground d
      else if name = LAYER_NAME_OBJECTS then objects d
      else if name = LAYER_NAME_WALLS then walls d
      else [])"

definition extends :: "Window \<times> ChunkSprites \<Rightarrow> Window \<times> ChunkSprites \<Rightarrow> bool" where
  "extends a b =
     (\<exists>d. snd b = cs_append (snd a) d
          \<and> fst b = (fst a)\<lparr>scene := (\<lambda>name. scene (fst a) name @ layer_of d name)\<rparr>)"

definition grows :: "Window \<Rightarrow> Window \<Rightarrow> bool" where
  "grows s s' =
     (textures s' = textures s \<and> terrain_mode s' = terrain_mode s
      \<and> camera_position s' = camera_position s
      \<and> (\<forall>name. \<exists>ys. scene s' name = scene s name @ ys))"

definition store_inv :: "Window \<Rightarrow> bool" where
  "store_inv s =
     (\<forall>p \<in> set (chunks s). length (ground (snd p)) = 256
        \<and> (\<forall>name. set (layer_of (snd p) name) \<subseteq> set (scene s name)))"

definition sim :: "Random \<times> Window \<times> ChunkSprites \<Rightarrow> Random \<times> Window \<times> ChunkSprites \<Rightarrow> bool" where
  "sim a b =
     (snd (snd a) = snd (snd b)
      \<and> textures (fst (snd a)) = textures (fst (snd b))
      \<and> terrain_mode (fst (snd a)) = terrain_mode (fst (snd b))
      \<and> (terrain_mode (fst (snd a)) = ''quantum'' \<or> fst a = fst b))"

definition grass_sprite :: "Texture \<Rightarrow> int \<Rightarrow> int \<Rightarrow> Sprite" where
  "grass_sprite g tx ty =
     \<lparr>texture = g, center_x = fst (iso_to_screen tx ty), center_y = snd (iso_to_screen tx ty),
      iso_x = None, iso_y = None, hit_box = None\<rparr>"

definition log_draws :: "int \<Rightarrow> Random" where
  "log_draws seed = (\<lambda>i. if i = 0 then 41 / 100 else 1 / 2, 0)"

definition start_window :: "(string \<rightharpoonup> Texture) \<Rightarrow> string \<Rightarrow> Window" where
  "start_window T m =
     \<lparr>camera_position = (0, 0), scene = (\<lambda>_. []), textures = T, chunks = [], terrain_mode = m\<rparr>"

text \<open>
  The elements that the tile loop of \<open>create_chunk\<close> generates, tile by tile in the order of
  the loop, with the generator threaded through the calls of \<open>generate_terrain_element\<close>;
  what \<open>place_element\<close> adds to an empty chunk for one generated element; and the chunk made
  of the ground placements and of what is placed for each element of a list.
\<close>

fun elements_of :: "Window \<Rightarrow> (int \<times> int) list \<Rightarrow> Random \<Rightarrow> (int \<times> int \<times> string option) list" where
  "elements_of s [] rng = []"
| "elements_of s (t # ts) rng =
     (fst t, snd t, fst (generate_terrain_element s (fst t) (snd t) rng))
       # elements_of s ts (snd (generate_terrain_element s (fst t) (snd t) rng))"

definition chunk_tiles :: "int \<Rightarrow> int \<Rightarrow> (int \<times> int) list" where
  "chunk_tiles cx cy =
     map (\<lambda>(x, y). (cx * CHUNK_SIZE + x, cy * CHUNK_SIZE + y))
       (List.product (py_range 0 CHUNK_SIZE) (py_range 0 CHUNK_SIZE))"

definition chunk_elements ::
  "(int \<Rightarrow> Random) \<Rightarrow> Window \<Rightarrow> int \<Rightarrow> int \<Rightarrow> (int \<times> int \<times> string option) list" where
  "chunk_elements R s cx cy = elements_of s (chunk_tiles cx cy) (R (get_chunk_seed cx cy))"

definition placed :: "Window \<Rightarrow> int \<times> int \<times> string option \<Rightarrow> ChunkSprites" where
  "placed s el =
     snd (place_element (fst el) (fst (snd el))
            (fst (iso_to_screen (fst el) (fst (snd el)))) (snd (iso_to_screen (fst el) (fst (snd el))))
            (snd (snd el)) (s, \<lparr>ground = [], objects = [], walls = []\<rparr>))"

definition other_kind :: "string \<Rightarrow> int \<times> int \<times> string option \<Rightarrow> bool" where
  "other_kind k el = (snd (snd el) \<noteq> Some k)"

definition chunk_part :: "Texture \<Rightarrow> Window \<Rightarrow> (int \<times> int \<times> string option) list \<Rightarrow> ChunkSprites" where
  "chunk_part g s els =
     \<lparr>ground = map (\<lambda>el. grass_sprite g (fst el) (fst (snd el))) els,
      objects = concat (map (objects \<circ> placed s) els),
      walls = concat (map (walls \<circ> placed s) els)\<rparr>"

text \<open>
  Two behaviours of \<open>arcade.load_texture\<close>: every file loads (a texture is named by its
  path); every file loads but \<^verbatim>\<open>stone_tallG_NE.png\<close>. \<open>full_table\<close> and \<open>trees_table\<close> are
  the tables \<open>load_textures\<close> leaves in the two cases. \<open>no_draws\<close> is a generator for the
  quantum mode, which makes no draw.
\<close>

definition every_file :: "string \<Rightarrow> Texture option" where
  "every_file path = Some path"

definition but_stone_tall :: "string \<Rightarrow> Texture option" where
  "but_stone_tall path = (if path = ''assets/terrain/stone_tallG_NE.png'' then None else Some path)"

definition full_table :: "string \<rightharpoonup> Texture" where
  "full_table = map_of texture_files"

definition trees_table :: "string \<rightharpoonup> Texture" where
  "trees_table =
     (map_of (take 6 texture_files))(''grass'' \<mapsto> '':resources:images/tiles/grassCenter.png'')"

definition no_draws :: "int \<Rightarrow> Random" where
  "no_draws seed = (\<lambda>i. 0, 0)"

section \<open>Properties of the numeric core\<close>

lemma py_fmod_range:
  assumes "0 < b"
  shows "0 \<le> py_fmod a b" and "py_fmod a b < b"
proof -
  define n :: real where "n = of_int \<lfloor>a / b\<rfloor>"
  have "n \<le> a / b" unfolding n_def by simp
  then have "n * b \<le> a"
    using assms by (simp add: pos_le_divide_eq)
  then show "0 \<le> py_fmod a b"
    by (simp add: py_fmod_def n_def [symmetric] mult.commute)
  have "a / b < n + 1" unfolding n_def by linarith
  then have "a < (n + 1) * b"
    using assms by (simp add: pos_divide_less_eq)
  then show "py_fmod a b < b"
    by (simp add: py_fmod_def n_def [symmetric] algebra_simps)
qed

lemma cos_py_fmod [simp]: "cos (py_fmod a (2 * pi)) = cos a"
  unfolding py_fmod_def by (simp add: cos_diff)

lemma cos_py_fmod_add [simp]: "cos (py_fmod a (2 * pi) + c) = cos (a + c)"
proof -
  have "py_fmod a (2 * pi) + c = (a + c) - (2 * pi) * of_int \<lfloor>a / (2 * pi)\<rfloor>"
    by (simp add: py_fmod_def)
  then have "cos (py_fmod a (2 * pi) + c) = cos ((a + c) - (2 * pi) * of_int \<lfloor>a / (2 * pi)\<rfloor>)"
    by (rule arg_cong)
  also have "\<dots> = cos (a + c)"
    by (simp only: cos_diff cos_int_2pin sin_int_2pin mult_1_right mult_zero_right add_0_right)
  finally show ?thesis .
qed


lemma sum_lessThan_7: "(\<Sum>m<(7::nat). f m) = f 0 + f (Suc 0) + f 2 + f 3 + f 4 + f 5 + (f 6 :: real)"
  by (simp add: eval_nat_numeral)

lemma sin_coeff_upto_6:
  "sin_coeff 0 = 0" "sin_coeff (Suc 0) = 1" "sin_coeff 2 = 0" "sin_coeff 3 = - 1 / 6"
  "sin_coeff 4 = 0" "sin_coeff 5 = 1 / 120" "sin_coeff 6 = 0"
  by (simp_all add: sin_coeff_def fact_numeral)

lemma sin_157_300: "sin (157 / 300 :: real) < 1 / 2"
proof -
  have "\<bar>sin (157 / 300 :: real) - (\<Sum>m<7. sin_coeff m * (157 / 300) ^ m)\<bar>
          \<le> inverse (fact 7) * \<bar>157 / 300\<bar> ^ 7"
    by (rule Maclaurin_sin_bound)
  moreover have "(\<Sum>m<7. sin_coeff m * (157 / 300 :: real) ^ m)
      = 157 / 300 - (157 / 300) ^ 3 / 6 + (157 / 300) ^ 5 / 120"
    by (simp only: sum_lessThan_7 sin_coeff_upto_6) simp
  ultimately have "sin (157 / 300 :: real)
      \<le> 157 / 300 - (157 / 300) ^ 3 / 6 + (157 / 300) ^ 5 / 120 + inverse (fact 7) * (157 / 300) ^ 7"
    by (simp add: abs_le_iff)
  also have "\<dots> < 1 / 2"
    by (simp add: fact_numeral power_divide)
  finally show ?thesis .
qed

lemma pi_gt_314: "157 / 50 < pi"
proof (rule ccontr)
  assume "\<not> 157 / 50 < pi"
  then have le: "pi / 6 \<le> 157 / 300" by simp
  have "157 / 300 \<le> pi / 2" using pi_ge_two by simp
  then have "sin (pi / 6) \<le> sin (157 / 300)"
    using le by (intro sin_monotone_2pi_le) simp_all
  then show False using sin_157_300 by (simp add: sin_30)
qed

lemma spec_normalize_py_fmod: "spec_normalize v = py_fmod v (2 * pi)"
  by (simp add: spec_normalize_def py_fmod_def)

lemma quantum_density_steps: "quantum_density x y = spec_density (314 / 100) x y"
  by (simp add: quantum_density_def spec_density_def Let_def QuantumState_init_def hadamard_def
      rotate_def measure_q_def spec_measure_def spec_rotate_def spec_hadamard_def
      spec_PhaseModel_def spec_normalize_py_fmod)

lemma quantum_variation_steps: "quantum_variation x y = spec_variation x y"
  by (simp add: quantum_variation_def spec_variation_def Let_def QuantumState_init_def hadamard_def
      rotate_def measure_q_def spec_measure_def spec_rotate_def spec_hadamard_def
      spec_PhaseModel_def spec_normalize_py_fmod)

lemma quantum_combined_spec: "quantum_combined x y = spec_combined (314 / 100) x y"
  by (simp add: quantum_combined_def spec_combined_def Let_def quantum_density_steps
      quantum_variation_steps)

text \<open>
  C1, as the code has it. The value of \<open>combined\<close> is the one of the specification's steps
  (phase model of \<open>(x, y)\<close>, hadamard, rotation by the normalized angle, hadamard, rotation by
  \<open>normalize (x * y * 0.001)\<close>, measure; phase model of \<open>(y, x)\<close>, hadamard, rotation by
  \<open>x * 0.1\<close>, measure; \<open>(density + variation * 0.5) / 1.5\<close>) with the sine term of the first
  rotation scaled by the literal \<open>3.14\<close>.
\<close>

theorem quantum_combined_steps:
  "quantum_combined x y = spec_combined 3.14 x y"
  using quantum_combined_spec [of x y] by simp

lemma spec_normalize_shift: "\<exists>n::int. spec_normalize v = v + 2 * pi * of_int n"
  by (rule exI [of _ "- \<lfloor>v / (2 * pi)\<rfloor>"]) (simp add: spec_normalize_def)

lemma cos_shift: "cos (a + 2 * pi * of_int n) = cos a"
  by (simp add: cos_add)

lemma spec_density_closed:
  "spec_density k x y =
     (cos (of_int x * 0.1234 + of_int y * 0.4321 + sin (of_int x * 0.1) * cos (of_int y * 0.1)
           + pi / 4 + (of_int x * 0.314 + of_int y * 0.271 + sin (of_int x * 0.05) * k)
           + pi / 4 + of_int (x * y) * 0.001) + 1) / 2"
proof -
  define A :: real where
    "A = of_int x * 0.1234 + of_int y * 0.4321 + sin (of_int x * 0.1) * cos (of_int y * 0.1)"
  define G :: real where
    "G = of_int x * 0.314 + of_int y * 0.271 + sin (of_int x * 0.05) * k"
  define R :: real where "R = of_int (x * y) * 0.001"
  define p1 where "p1 = spec_normalize A"
  define p2 where "p2 = spec_normalize (p1 + pi / 4)"
  define g where "g = spec_normalize G"
  define p3 where "p3 = spec_normalize (p2 + g)"
  define p4 where "p4 = spec_normalize (p3 + pi / 4)"
  define r where "r = spec_normalize R"
  define p5 where "p5 = spec_normalize (p4 + r)"
  obtain n1 :: int where 1: "p1 = A + 2 * pi * of_int n1"
    unfolding p1_def using spec_normalize_shift by blast
  obtain n2 :: int where 2: "p2 = p1 + pi / 4 + 2 * pi * of_int n2"
    unfolding p2_def using spec_normalize_shift by blast
  obtain ng :: int where g: "g = G + 2 * pi * of_int ng"
    unfolding g_def using spec_normalize_shift by blast
  obtain n3 :: int where 3: "p3 = p2 + g + 2 * pi * of_int n3"
    unfolding p3_def using spec_normalize_shift by blast
  obtain n4 :: int where 4: "p4 = p3 + pi / 4 + 2 * pi * of_int n4"
    unfolding p4_def using spec_normalize_shift by blast
  obtain nr :: int where r: "r = R + 2 * pi * of_int nr"
    unfolding r_def using spec_normalize_shift by blast
  obtain n5 :: int where 5: "p5 = p4 + r + 2 * pi * of_int n5"
    unfolding p5_def using spec_normalize_shift by blast
  have "p5 = (A + pi / 4 + G + pi / 4 + R) + 2 * pi * of_int (n1 + n2 + ng + n3 + n4 + nr + n5)"
    by (simp add: 1 2 g 3 4 r 5 algebra_simps)
  then have "cos p5 = cos (A + pi / 4 + G + pi / 4 + R)"
    by (simp only: cos_shift)
  moreover have "spec_density k x y = (cos p5 + 1) / 2"
    by (simp add: spec_density_def spec_measure_def spec_rotate_def spec_hadamard_def
        spec_PhaseModel_def p5_def p4_def p3_def p2_def p1_def g_def r_def A_def G_def R_def)
  ultimately show ?thesis
    by (simp only: A_def G_def R_def)
qed

text \<open>
  C1, as the claim has it, fails: with the sine term scaled by \<open>pi\<close> the steps give another
  value at the tile \<open>(1, 0)\<close>.
\<close>

theorem quantum_combined_pi_cex:
  "quantum_combined 1 0 \<noteq> spec_combined pi 1 0"
proof
  define s where "s = sin (1 / 20 :: real)"
  define t where "t = sin (1 / 10 :: real)"
  assume "quantum_combined 1 0 = spec_combined pi 1 0"
  then have "spec_density (314 / 100) 1 0 = spec_density pi 1 0"
    by (simp add: quantum_combined_spec spec_combined_def)
  then have ceq: "cos (617 / 5000 + t + pi / 4 + (157 / 500 + s * (157 / 50)) + pi / 4)
                = cos (617 / 5000 + t + pi / 4 + (157 / 500 + s * pi) + pi / 4)"
    by (simp add: spec_density_closed s_def t_def)
  have p3: "157 / 50 < pi" by (rule pi_gt_314)
  have s0: "0 < s" unfolding s_def by (rule sin_gt_zero) (use p3 in simp_all)
  have s1: "s \<le> 1 / 20" unfolding s_def by (rule sin_x_le_x) simp
  have t0: "0 \<le> t" unfolding t_def by (rule sin_ge_zero) (use p3 in simp_all)
  have t1: "t \<le> 1 / 10" unfolding t_def by (rule sin_x_le_x) simp
  have m1: "s * pi \<le> (1 / 20) * pi"
    using s1 by (intro mult_right_mono) simp_all
  have m0: "0 \<le> s * pi" using s0 by simp
  have "617 / 5000 + t + pi / 4 + (157 / 500 + s * (157 / 50)) + pi / 4
      = 617 / 5000 + t + pi / 4 + (157 / 500 + s * pi) + pi / 4"
  proof (rule cos_inj_pi [OF _ _ _ _ ceq])
    show "0 \<le> 617 / 5000 + t + pi / 4 + (157 / 500 + s * (157 / 50)) + pi / 4"
      using s0 t0 p3 by linarith
    show "617 / 5000 + t + pi / 4 + (157 / 500 + s * (157 / 50)) + pi / 4 \<le> pi"
      using s1 t1 p3 by linarith
    show "0 \<le> 617 / 5000 + t + pi / 4 + (157 / 500 + s * pi) + pi / 4"
      using m0 t0 p3 by linarith
    show "617 / 5000 + t + pi / 4 + (157 / 500 + s * pi) + pi / 4 \<le> pi"
      using m1 t1 p3 by linarith
  qed
  then have "s * (157 / 50) = s * pi" by linarith
  then have "pi = 157 / 50" using s0 by simp
  then show False using p3 by simp
qed


text \<open>
  C2. \<open>quantum_terrain\<close> maps \<open>combined\<close> through the ordered bands: below \<open>0.65\<close> nothing,
  below \<open>0.68\<close> the thin tree, below \<open>0.70\<close> the default tree, below \<open>0.72\<close> the oak, below
  \<open>0.75\<close> the large stone, below \<open>0.77\<close> the log, and from \<open>0.77\<close> on the tall stone when
  \<open>(x + y) mod 3 = 0\<close> and the small bush otherwise. Each bound belongs to the band above it;
  the value \<open>0.65\<close> itself gives the thin tree.
\<close>

theorem quantum_bands_table:
  "quantum_terrain x y = quantum_bands (quantum_combined x y) x y
   \<and> (c < 0.65 \<longrightarrow> quantum_bands c x y = None)
   \<and> (0.65 \<le> c \<and> c < 0.68 \<longrightarrow> quantum_bands c x y = Some ''tree_thin_fall'')
   \<and> (0.68 \<le> c \<and> c < 0.70 \<longrightarrow> quantum_bands c x y = Some ''tree_default_fall'')
   \<and> (0.70 \<le> c \<and> c < 0.72 \<longrightarrow> quantum_bands c x y = Some ''tree_oak_fall'')
   \<and> (0.72 \<le> c \<and> c < 0.75 \<longrightarrow> quantum_bands c x y = Some ''stone_large'')
   \<and> (0.75 \<le> c \<and> c < 0.77 \<longrightarrow> quantum_bands c x y = Some ''log'')
   \<and> (0.77 \<le> c \<and> (x + y) mod 3 = 0 \<longrightarrow> quantum_bands c x y = Some ''stone_tall'')
   \<and> (0.77 \<le> c \<and> (x + y) mod 3 \<noteq> 0 \<longrightarrow> quantum_bands c x y = Some ''bush_small'')
   \<and> quantum_bands 0.65 x y = Some ''tree_thin_fall''"
  unfolding quantum_terrain_def quantum_bands_def by simp

theorem quantum_bands_table_witness:
  "quantum_bands (1 / 2) 0 0 = None
   \<and> quantum_bands (13 / 20) 0 0 = Some ''tree_thin_fall''
   \<and> quantum_bands (69 / 100) 0 0 = Some ''tree_default_fall''
   \<and> quantum_bands (71 / 100) 0 0 = Some ''tree_oak_fall''
   \<and> quantum_bands (73 / 100) 0 0 = Some ''stone_large''
   \<and> quantum_bands (76 / 100) 0 0 = Some ''log''
   \<and> quantum_bands (77 / 100) 1 2 = Some ''stone_tall''
   \<and> quantum_bands (77 / 100) 1 1 = Some ''bush_small''"
  using quantum_bands_table [of 0 0 "1 / 2"] quantum_bands_table [of 0 0 "13 / 20"]
    quantum_bands_table [of 0 0 "69 / 100"] quantum_bands_table [of 0 0 "71 / 100"]
    quantum_bands_table [of 0 0 "73 / 100"] quantum_bands_table [of 0 0 "76 / 100"]
    quantum_bands_table [of 1 2 "77 / 100"] quantum_bands_table [of 1 1 "77 / 100"]
  by simp

lemma py_int_nonneg: "0 \<le> v \<Longrightarrow> py_int v = \<lfloor>v\<rfloor>"
  by (simp add: py_int_def)

text \<open>
  C8. \<open>get_chunk_seed\<close> reads nothing but its two arguments and the constants \<open>MASTER_SEED\<close>
  and \<open>CHUNK_SIZE\<close>, so it is a function of the chunk coordinate; for every pair of integers
  its value is an integer from \<open>0\<close> to \<open>2^31 - 2\<close>.
\<close>

theorem chunk_seed_range:
  "0 \<le> get_chunk_seed cx cy \<and> get_chunk_seed cx cy \<le> 2 ^ 31 - 2"
proof -
  define c where "c = py_fmod \<bar>(of_int MASTER_SEED * sin (of_int (cx * CHUNK_SIZE + CHUNK_SIZE div 2) * 0.1)
       * cos (of_int (cy * CHUNK_SIZE + CHUNK_SIZE div 2) * 0.1)
     + of_int (((cx * CHUNK_SIZE + CHUNK_SIZE div 2) * 73856093) XOR ((cy * CHUNK_SIZE + CHUNK_SIZE div 2) * 19349663))) * 1000\<bar> (2 ^ 31 - 1)"
  have s: "get_chunk_seed cx cy = py_int c"
    by (simp add: get_chunk_seed_def c_def Let_def)
  have pos: "(0::real) < 2 ^ 31 - 1" by simp
  have c0: "0 \<le> c" and c1: "c < 2 ^ 31 - 1"
    unfolding c_def by (rule py_fmod_range [OF pos])+
  have "py_int c = \<lfloor>c\<rfloor>" using c0 by (rule py_int_nonneg)
  moreover have "0 \<le> \<lfloor>c\<rfloor>" using c0 by simp
  moreover have "\<lfloor>c\<rfloor> < 2 ^ 31 - 1" using c1 by (simp add: floor_less_iff)
  ultimately show ?thesis using s by simp
qed

text \<open>
  C3, as the code has it. \<open>screen_to_chunk\<close> divides by \<open>TILE_WIDTH * CHUNK_SIZE / 2 = 1024\<close>
  and \<open>TILE_HEIGHT * CHUNK_SIZE / 2 = 512\<close> and converts with \<open>int\<close>, which rounds toward
  zero: the result is the floor of the quotient for a coordinate that is not negative, and
  its ceiling for a negative one.
\<close>

theorem screen_to_chunk_trunc:
  "screen_to_chunk sx sy =
     ((if sx < 0 then \<lceil>sx / 1024\<rceil> else \<lfloor>sx / 1024\<rfloor>),
      (if sy < 0 then \<lceil>sy / 512\<rceil> else \<lfloor>sy / 512\<rfloor>))"
  by (simp add: screen_to_chunk_def Let_def consts_defs py_int_def ceiling_def)

text \<open>
  C3, as the claim has it, fails at the position \<open>(-1, -1)\<close>: the floors are \<open>-1\<close>, the code
  returns the chunk \<open>(0, 0)\<close>.
\<close>

theorem screen_to_chunk_floor_cex:
  "screen_to_chunk (- 1) (- 1) = (0, 0)
   \<and> screen_to_chunk (- 1) (- 1)
       \<noteq> (\<lfloor>(- 1) / (of_int TILE_WIDTH * of_int CHUNK_SIZE / 2 :: real)\<rfloor>,
           \<lfloor>(- 1) / (of_int TILE_HEIGHT * of_int CHUNK_SIZE / 2 :: real)\<rfloor>)"
  by (simp add: screen_to_chunk_def Let_def consts_defs py_int_def)

lemma quantum_bands_kinds: "quantum_bands c x y \<in> set quantum_kinds"
  by (simp add: quantum_bands_def quantum_kinds_def)

lemma gen_kinds:
  "fst (generate_terrain_element self x y rng) \<in> set quantum_kinds \<union>
     {Some ''tree_blocks_fall'', Some ''tree_fat_fall'', Some ''log_large''}"
  using quantum_bands_kinds [of "quantum_combined x y" x y]
  by (simp add: generate_terrain_element_def quantum_terrain_def Let_def split_beta quantum_kinds_def)

text \<open>
  C10. The quantum mode returns one of its eight values, never the block tree, the fat tree
  or the large log; the random mode does return each of these three, for suitable draws.
  Whatever kind either mode returns is one of the ten collidable kinds or the small bush, and
  \<open>has_collision\<close> holds of it exactly when it is not the small bush.
\<close>

theorem element_kinds:
  "quantum_terrain x y \<in> set quantum_kinds
   \<and> quantum_terrain x y \<notin> {Some ''tree_blocks_fall'', Some ''tree_fat_fall'', Some ''log_large''}
   \<and> (terrain_mode self = ''quantum'' \<longrightarrow>
        generate_terrain_element self x y rng = (quantum_terrain x y, rng))
   \<and> (terrain_mode self \<noteq> ''quantum'' \<longrightarrow>
        fst (generate_terrain_element self x y (\<lambda>i. 1 / 10, n)) = Some ''tree_blocks_fall''
        \<and> fst (generate_terrain_element self x y (\<lambda>i. if i = n then 1 / 10 else 8 / 10, n)) = Some ''tree_fat_fall''
        \<and> fst (generate_terrain_element self x y (\<lambda>i. if i = n then 41 / 100 else 7 / 10, n)) = Some ''log_large'')
   \<and> (fst (generate_terrain_element self x y rng) = Some e \<longrightarrow>
        e \<in> set collision_types \<union> {''bush_small''}
        \<and> has_collision e = (e \<noteq> ''bush_small''))"
proof -
  have q: "quantum_terrain x y \<in> set quantum_kinds"
    unfolding quantum_terrain_def by (rule quantum_bands_kinds)
  then have nq: "quantum_terrain x y \<notin> {Some ''tree_blocks_fall'', Some ''tree_fat_fall'', Some ''log_large''}"
    by (auto simp: quantum_kinds_def)
  have r: "terrain_mode self \<noteq> ''quantum'' \<longrightarrow>
        fst (generate_terrain_element self x y (\<lambda>i. 1 / 10, n)) = Some ''tree_blocks_fall''
        \<and> fst (generate_terrain_element self x y (\<lambda>i. if i = n then 1 / 10 else 8 / 10, n)) = Some ''tree_fat_fall''
        \<and> fst (generate_terrain_element self x y (\<lambda>i. if i = n then 41 / 100 else 7 / 10, n)) = Some ''log_large''"
    by (simp add: generate_terrain_element_def random_def)
  have c: "fst (generate_terrain_element self x y rng) = Some e \<longrightarrow>
        e \<in> set collision_types \<union> {''bush_small''} \<and> has_collision e = (e \<noteq> ''bush_small'')"
    using gen_kinds [of self x y rng]
    by (auto simp: quantum_kinds_def has_collision_def collision_types_def)
  show ?thesis using q nq r c by (simp add: generate_terrain_element_def)
qed


theorem element_kinds_witness:
  "fst (generate_terrain_element
          \<lparr>camera_position = (0, 0), scene = (\<lambda>_. []), textures = Map.empty, chunks = [],
           terrain_mode = ''random''\<rparr> 0 0 (\<lambda>i. 1 / 10, 0)) = Some ''tree_blocks_fall''
   \<and> has_collision ''tree_blocks_fall''
   \<and> generate_terrain_element
          \<lparr>camera_position = (0, 0), scene = (\<lambda>_. []), textures = Map.empty, chunks = [],
           terrain_mode = ''quantum''\<rparr> 0 0 (\<lambda>i. 1 / 10, 0) = (quantum_terrain 0 0, (\<lambda>i. 1 / 10, 0))"
  using element_kinds [where x = 0 and y = 0 and n = 0 and e = "''tree_blocks_fall''"
      and rng = "(\<lambda>i. 1 / 10, 0)"
      and self = "\<lparr>camera_position = (0, 0), scene = (\<lambda>_. []), textures = Map.empty,
        chunks = [], terrain_mode = ''random''\<rparr>"]
    element_kinds [where x = 0 and y = 0 and n = 0 and e = "''log''"
      and rng = "(\<lambda>i. 1 / 10, 0)"
      and self = "\<lparr>camera_position = (0, 0), scene = (\<lambda>_. []), textures = Map.empty,
        chunks = [], terrain_mode = ''quantum''\<rparr>"]
  by simp

lemma cos_lower: "1 - t\<^sup>2 / 2 \<le> cos (t :: real)"
proof -
  have "cos t = 1 - 2 * (sin (t / 2))\<^sup>2"
    using cos_double_sin [of "t / 2"] by simp
  moreover have "(sin (t / 2))\<^sup>2 \<le> (t / 2)\<^sup>2"
    using abs_sin_x_le_abs_x [of "t / 2"] by (simp add: abs_le_square_iff [symmetric])
  ultimately show ?thesis by (simp add: power2_eq_square)
qed

lemma spec_variation_closed:
  "spec_variation x y =
     (cos (of_int y * 0.1234 + of_int x * 0.4321 + sin (of_int y * 0.1) * cos (of_int x * 0.1)
           + pi / 4 + of_int x * 0.1) + 1) / 2"
proof -
  define A :: real where
    "A = of_int y * 0.1234 + of_int x * 0.4321 + sin (of_int y * 0.1) * cos (of_int x * 0.1)"
  define p1 where "p1 = spec_normalize A"
  define p2 where "p2 = spec_normalize (p1 + pi / 4)"
  define p3 where "p3 = spec_normalize (p2 + of_int x * 0.1)"
  obtain n1 :: int where 1: "p1 = A + 2 * pi * of_int n1"
    unfolding p1_def using spec_normalize_shift by blast
  obtain n2 :: int where 2: "p2 = p1 + pi / 4 + 2 * pi * of_int n2"
    unfolding p2_def using spec_normalize_shift by blast
  obtain n3 :: int where 3: "p3 = p2 + of_int x * 0.1 + 2 * pi * of_int n3"
    unfolding p3_def using spec_normalize_shift by blast
  have "p3 = (A + pi / 4 + of_int x * 0.1) + 2 * pi * of_int (n1 + n2 + n3)"
    by (simp add: 1 2 3 algebra_simps)
  then have "cos p3 = cos (A + pi / 4 + of_int x * 0.1)"
    by (simp only: cos_shift)
  moreover have "spec_variation x y = (cos p3 + 1) / 2"
    by (simp add: spec_variation_def spec_measure_def spec_rotate_def spec_hadamard_def
        spec_PhaseModel_def p3_def p2_def p1_def A_def)
  ultimately show ?thesis by (simp only: A_def)
qed

lemma quantum_terrain_stone:
  "quantum_terrain 0 (- 3) = Some ''stone_tall''"
proof -
  define s where "s = sin (3 / 10 :: real)"
  have p0: "157 / 50 < pi" by (rule pi_gt_314)
  have p1: "pi < 4" by (rule pi_less_4)
  have s0: "0 \<le> s" unfolding s_def by (rule sin_ge_zero) (use p0 in simp_all)
  have s1: "s \<le> 3 / 10" unfolding s_def by (rule sin_x_le_x) simp
  define td where "td = pi / 2 - 21093 / 10000"
  define tv where "tv = pi / 4 - 3702 / 10000 - s"
  have D: "quantum_density 0 (- 3) = (cos td + 1) / 2"
  proof -
    have "(- (12963 / 10000) + pi / 4 + - (813 / 1000) + pi / 4 :: real) = td"
      by (simp add: td_def)
    then show ?thesis
      by (simp add: quantum_density_steps spec_density_closed)
  qed
  have V: "quantum_variation 0 (- 3) = (cos tv + 1) / 2"
  proof -
    have "(- (3702 / 10000) + sin (- (3 / 10)) + pi / 4 :: real) = tv"
      by (simp add: tv_def s_def)
    then show ?thesis
      by (simp add: quantum_variation_steps spec_variation_closed)
  qed
  have "\<bar>td\<bar> \<le> 54 / 100" unfolding td_def using p0 p1 by (simp add: abs_le_iff)
  then have "td\<^sup>2 \<le> (54 / 100)\<^sup>2"
    by (metis abs_ge_zero abs_le_square_iff abs_of_nonneg order_trans zero_le_numeral
        divide_nonneg_nonneg)
  then have cd: "85 / 100 \<le> cos td" using cos_lower [of td] by (simp add: power2_eq_square)
  have "\<bar>tv\<bar> \<le> 63 / 100" unfolding tv_def using p0 p1 s0 s1 by (simp add: abs_le_iff)
  then have "tv\<^sup>2 \<le> (63 / 100)\<^sup>2"
    by (metis abs_ge_zero abs_le_square_iff abs_of_nonneg order_trans zero_le_numeral
        divide_nonneg_nonneg)
  then have cv: "80 / 100 \<le> cos tv" using cos_lower [of tv] by (simp add: power2_eq_square)
  have eq: "quantum_combined 0 (- 3) = ((cos td + 1) / 2 + (cos tv + 1) / 2 * 0.5) / 1.5"
    by (simp only: quantum_combined_def Let_def D V)
  have "77 / 100 \<le> ((cos td + 1) / 2 + (cos tv + 1) / 2 * 0.5) / 1.5"
    using cd cv by (simp add: field_simps)
  then have "77 / 100 \<le> quantum_combined 0 (- 3)"
    by (simp only: eq)
  then show ?thesis
    by (simp add: quantum_terrain_def quantum_bands_def)
qed

section \<open>Properties of chunk creation and of the chunk store\<close>

lemmas layer_names = LAYER_NAME_GROUND_def LAYER_NAME_OBJECTS_def LAYER_NAME_WALLS_def

lemma cs_append_empty [simp]: "cs_append a cs_empty = a"
  by (simp add: cs_append_def cs_empty_def)

lemma cs_append_assoc: "cs_append (cs_append a b) c = cs_append a (cs_append b c)"
  by (simp add: cs_append_def)

lemma layer_of_empty [simp]: "layer_of cs_empty name = []"
  by (simp add: layer_of_def cs_empty_def)

lemma layer_of_append: "layer_of (cs_append a b) name = layer_of a name @ layer_of b name"
  by (simp add: layer_of_def cs_append_def)

lemma extends_refl: "extends a a"
  unfolding extends_def by (rule exI [of _ cs_empty]) simp

lemma extends_trans:
  assumes "extends a b" and "extends b c"
  shows "extends a c"
proof -
  from assms(1) obtain d1 where b: "snd b = cs_append (snd a) d1"
    "fst b = (fst a)\<lparr>scene := (\<lambda>name. scene (fst a) name @ layer_of d1 name)\<rparr>"
    unfolding extends_def by blast
  from assms(2) obtain d2 where c: "snd c = cs_append (snd b) d2"
    "fst c = (fst b)\<lparr>scene := (\<lambda>name. scene (fst b) name @ layer_of d2 name)\<rparr>"
    unfolding extends_def by blast
  show ?thesis
    unfolding extends_def
    by (rule exI [of _ "cs_append d1 d2"]) (simp add: b c cs_append_assoc layer_of_append)
qed

lemma extends_ground:
  "extends (s, cs) (s\<lparr>scene := add_sprite LAYER_NAME_GROUND sp (scene s)\<rparr>,
                    cs\<lparr>ground := ground cs @ [sp]\<rparr>)"
  unfolding extends_def
  by (rule exI [of _ "\<lparr>ground = [sp], objects = [], walls = []\<rparr>"])
     (auto simp: cs_append_def layer_of_def add_sprite_def fun_eq_iff layer_names)

lemma extends_walls:
  "extends (s, cs) (s\<lparr>scene := add_sprite LAYER_NAME_WALLS sp (scene s)\<rparr>,
                    cs\<lparr>walls := walls cs @ [sp]\<rparr>)"
  unfolding extends_def
  by (rule exI [of _ "\<lparr>ground = [], objects = [], walls = [sp]\<rparr>"])
     (auto simp: cs_append_def layer_of_def add_sprite_def fun_eq_iff layer_names)

lemma extends_objects:
  "extends (s, cs) (s\<lparr>scene := add_sprite LAYER_NAME_OBJECTS sp (scene s)\<rparr>,
                    cs\<lparr>objects := objects cs @ [sp]\<rparr>)"
  unfolding extends_def
  by (rule exI [of _ "\<lparr>ground = [], objects = [sp], walls = []\<rparr>"])
     (auto simp: cs_append_def layer_of_def add_sprite_def fun_eq_iff layer_names)

lemma place_element_extends:
  "extends (s, cs) (place_element tx ty sx sy e (s, cs))"
  by (auto simp: place_element_def Let_def extends_refl extends_walls extends_objects
      split: option.splits)

lemma create_tile_step:
  assumes "textures s ''grass'' = Some g"
  shows "\<exists>rng' s' cs'. create_tile tx ty (rng, s, cs) = Inr (rng', s', cs')
           \<and> extends (s, cs) (s', cs')"
proof -
  obtain sx sy where xy: "iso_to_screen tx ty = (sx, sy)" by (cases "iso_to_screen tx ty")
  define gs where "gs = \<lparr>texture = g, center_x = sx, center_y = sy,
                               iso_x = None, iso_y = None, hit_box = None\<rparr>"
  define s1 where "s1 = s\<lparr>scene := add_sprite LAYER_NAME_GROUND gs (scene s)\<rparr>"
  define cs1 where "cs1 = cs\<lparr>ground := ground cs @ [gs]\<rparr>"
  obtain e rng' where gen: "generate_terrain_element s1 tx ty rng = (e, rng')"
    by (cases "generate_terrain_element s1 tx ty rng")
  obtain s' cs' where pl: "place_element tx ty sx sy e (s1, cs1) = (s', cs')"
    by (cases "place_element tx ty sx sy e (s1, cs1)")
  have "create_tile tx ty (rng, s, cs) = Inr (rng', s', cs')"
    using assms xy gen pl by (simp add: create_tile_def Let_def gs_def s1_def cs1_def)
  moreover have "extends (s, cs) (s1, cs1)"
    unfolding s1_def cs1_def by (rule extends_ground)
  moreover have "extends (s1, cs1) (s', cs')"
    using place_element_extends [of s1 cs1 tx ty sx sy e] pl by simp
  ultimately show ?thesis using extends_trans by blast
qed

lemma place_element_ground:
  "ground (snd (place_element tx ty sx sy e (s, cs))) = ground cs"
  by (auto simp: place_element_def Let_def split: option.splits)

lemma create_tile_ground:
  assumes "create_tile tx ty (rng, s, cs) = Inr (rng', s', cs')"
  shows "length (ground cs') = Suc (length (ground cs))"
proof -
  obtain sx sy where xy: "iso_to_screen tx ty = (sx, sy)" by (cases "iso_to_screen tx ty")
  from assms obtain g where g: "textures s ''grass'' = Some g"
    by (auto simp: create_tile_def xy split: option.splits)
  define gs where "gs = \<lparr>texture = g, center_x = sx, center_y = sy,
                               iso_x = None, iso_y = None, hit_box = None\<rparr>"
  define s1 where "s1 = s\<lparr>scene := add_sprite LAYER_NAME_GROUND gs (scene s)\<rparr>"
  define cs1 where "cs1 = cs\<lparr>ground := ground cs @ [gs]\<rparr>"
  obtain e r1 where gen: "generate_terrain_element s1 tx ty rng = (e, r1)"
    by (cases "generate_terrain_element s1 tx ty rng")
  have "cs' = snd (place_element tx ty sx sy e (s1, cs1))"
    using assms g xy gen
    by (auto simp: create_tile_def Let_def gs_def s1_def cs1_def split: prod.splits)
  then show ?thesis by (simp add: place_element_ground cs1_def)
qed

lemma extends_textures: "extends (s, cs) (s', cs') \<Longrightarrow> textures s' = textures s"
  by (auto simp: extends_def)

lemma for_each_tiles:
  assumes "textures s ''grass'' = Some g"
  shows "\<exists>rng' s' cs'. for_each (\<lambda>(x, y). create_tile (a + x) (b + y)) xs (rng, s, cs)
             = Inr (rng', s', cs')
           \<and> extends (s, cs) (s', cs')
           \<and> length (ground cs') = length (ground cs) + length xs"
  using assms
proof (induction xs arbitrary: rng s cs)
  case Nil
  then show ?case by (simp add: extends_refl)
next
  case (Cons p xs)
  obtain x y where p: "p = (x, y)" by (cases p)
  from create_tile_step [OF Cons.prems, of "a + x" "b + y" rng cs]
  obtain r1 s1 cs1 where 1: "create_tile (a + x) (b + y) (rng, s, cs) = Inr (r1, s1, cs1)"
    and e1: "extends (s, cs) (s1, cs1)" by blast
  have l1: "length (ground cs1) = Suc (length (ground cs))"
    using 1 by (rule create_tile_ground)
  have "textures s1 ''grass'' = Some g"
    using extends_textures [OF e1] Cons.prems by simp
  from Cons.IH [OF this, of r1 cs1]
  obtain r2 s2 cs2 where 2: "for_each (\<lambda>(x, y). create_tile (a + x) (b + y)) xs (r1, s1, cs1)
             = Inr (r2, s2, cs2)"
    and e2: "extends (s1, cs1) (s2, cs2)"
    and l2: "length (ground cs2) = length (ground cs1) + length xs" by blast
  have "for_each (\<lambda>(x, y). create_tile (a + x) (b + y)) (p # xs) (rng, s, cs) = Inr (r2, s2, cs2)"
    using 1 2 by (simp add: p)
  moreover have "extends (s, cs) (s2, cs2)" using e1 e2 by (rule extends_trans)
  ultimately show ?case using l1 l2 by auto
qed

lemma length_py_range: "length (py_range a b) = nat (b - a)"
  by (simp add: py_range_def)

lemma cs_append_empty_left: "cs_append \<lparr>ground = [], objects = [], walls = []\<rparr> d = d"
  by (simp add: cs_append_def)

lemma create_chunk_ok:
  assumes "textures s ''grass'' = Some g"
  shows "\<exists>cs. create_chunk R s cx cy
            = Inr (cs, s\<lparr>scene := (\<lambda>name. scene s name @ layer_of cs name)\<rparr>)
           \<and> length (ground cs) = 256"
proof -
  from for_each_tiles [OF assms, of "cx * CHUNK_SIZE" "cy * CHUNK_SIZE"
      "List.product (py_range 0 CHUNK_SIZE) (py_range 0 CHUNK_SIZE)"
      "R (get_chunk_seed cx cy)" "\<lparr>ground = [], objects = [], walls = []\<rparr>"]
  obtain r' s' cs' where
    run: "for_each (\<lambda>(x, y). create_tile (cx * CHUNK_SIZE + x) (cy * CHUNK_SIZE + y))
            (List.product (py_range 0 CHUNK_SIZE) (py_range 0 CHUNK_SIZE))
            (R (get_chunk_seed cx cy), s, \<lparr>ground = [], objects = [], walls = []\<rparr>)
          = Inr (r', s', cs')"
    and ext: "extends (s, \<lparr>ground = [], objects = [], walls = []\<rparr>) (s', cs')"
    and len: "length (ground cs') = length (ground \<lparr>ground = [], objects = [], walls = []\<rparr>)
                + length (List.product (py_range 0 CHUNK_SIZE) (py_range 0 CHUNK_SIZE))"
    by blast
  from ext obtain d where "cs' = cs_append \<lparr>ground = [], objects = [], walls = []\<rparr> d"
    and s': "s' = s\<lparr>scene := (\<lambda>name. scene s name @ layer_of d name)\<rparr>"
    unfolding extends_def by auto
  then have d: "d = cs'" by (simp add: cs_append_empty_left)
  have "create_chunk R s cx cy = Inr (cs', s')"
    using run by (simp add: create_chunk_def Let_def)
  moreover have "length (ground cs') = 256"
    using len by (simp add: length_py_range CHUNK_SIZE_def)
  ultimately show ?thesis using s' d by auto
qed

lemma grows_refl: "grows s s"
  by (simp add: grows_def)

lemma grows_trans: "grows a b \<Longrightarrow> grows b c \<Longrightarrow> grows a c"
  unfolding grows_def by (metis append.assoc)

lemma grows_scene_mono: "grows s s' \<Longrightarrow> set (scene s name) \<subseteq> set (scene s' name)"
  unfolding grows_def by (metis set_append sup_ge1)

lemma update_fresh: "k \<notin> fst ` set al \<Longrightarrow> AList.update k v al = al @ [(k, v)]"
  by (induction al) auto

lemma ensure_chunk_ok:
  assumes g: "textures s ''grass'' = Some g"
  shows "\<exists>s'. ensure_chunk R pos s = Inr s' \<and> grows s s'
           \<and> fst ` set (chunks s') = insert pos (fst ` set (chunks s))
           \<and> (store_inv s \<longrightarrow> store_inv s')
           \<and> (distinct (map fst (chunks s)) \<longrightarrow> distinct (map fst (chunks s')))
           \<and> (\<forall>p \<in> set (chunks s). p \<in> set (chunks s'))"
proof (cases "pos \<in> fst ` set (chunks s)")
  case True
  then have "ensure_chunk R pos s = Inr s" by (simp add: ensure_chunk_def)
  then show ?thesis using True by (auto simp: grows_refl)
next
  case False
  from create_chunk_ok [OF g, of R "fst pos" "snd pos"]
  obtain cs where cr: "create_chunk R s (fst pos) (snd pos)
            = Inr (cs, s\<lparr>scene := (\<lambda>name. scene s name @ layer_of cs name)\<rparr>)"
    and len: "length (ground cs) = 256" by blast
  define s' where "s' = s\<lparr>scene := (\<lambda>name. scene s name @ layer_of cs name),
                          chunks := chunks s @ [(pos, cs)]\<rparr>"
  have run: "ensure_chunk R pos s = Inr s'"
    using False cr by (simp add: ensure_chunk_def s'_def update_fresh)
  have gr: "grows s s'" by (simp add: grows_def s'_def)
  have keys: "fst ` set (chunks s') = insert pos (fst ` set (chunks s))"
    by (auto simp: s'_def)
  have inv: "store_inv s \<longrightarrow> store_inv s'"
    using len by (auto simp: store_inv_def s'_def)
  have dist: "distinct (map fst (chunks s)) \<longrightarrow> distinct (map fst (chunks s'))"
    using False by (auto simp: s'_def)
  have keep: "\<forall>p \<in> set (chunks s). p \<in> set (chunks s')" by (simp add: s'_def)
  show ?thesis using run gr keys inv dist keep by blast
qed

lemma for_each_ensure_ok:
  assumes "textures s ''grass'' = Some g"
  shows "\<exists>s'. for_each (ensure_chunk R) ps s = Inr s' \<and> grows s s'
           \<and> fst ` set (chunks s') = set ps \<union> fst ` set (chunks s)
           \<and> (store_inv s \<longrightarrow> store_inv s')
           \<and> (distinct (map fst (chunks s)) \<longrightarrow> distinct (map fst (chunks s')))
           \<and> (\<forall>p \<in> set (chunks s). p \<in> set (chunks s'))"
  using assms
proof (induction ps arbitrary: s)
  case Nil
  then show ?case by (simp add: grows_refl)
next
  case (Cons pos ps)
  from ensure_chunk_ok [OF Cons.prems, of R pos]
  obtain s1 where 1: "ensure_chunk R pos s = Inr s1" and g1: "grows s s1"
    and k1: "fst ` set (chunks s1) = insert pos (fst ` set (chunks s))"
    and i1: "store_inv s \<longrightarrow> store_inv s1"
    and d1: "distinct (map fst (chunks s)) \<longrightarrow> distinct (map fst (chunks s1))"
    and p1: "\<forall>p \<in> set (chunks s). p \<in> set (chunks s1)" by blast
  have "textures s1 ''grass'' = Some g" using g1 Cons.prems by (simp add: grows_def)
  from Cons.IH [OF this]
  obtain s2 where 2: "for_each (ensure_chunk R) ps s1 = Inr s2" and g2: "grows s1 s2"
    and k2: "fst ` set (chunks s2) = set ps \<union> fst ` set (chunks s1)"
    and i2: "store_inv s1 \<longrightarrow> store_inv s2"
    and d2: "distinct (map fst (chunks s1)) \<longrightarrow> distinct (map fst (chunks s2))"
    and p2: "\<forall>p \<in> set (chunks s1). p \<in> set (chunks s2)" by blast
  have "for_each (ensure_chunk R) (pos # ps) s = Inr s2" using 1 2 by simp
  moreover have "grows s s2" using g1 g2 by (rule grows_trans)
  moreover have "fst ` set (chunks s2) = set (pos # ps) \<union> fst ` set (chunks s)"
    using k1 k2 by auto
  ultimately show ?case using i1 i2 d1 d2 p1 p2 by blast
qed

lemma for_each_ensure_present:
  "set ps \<subseteq> fst ` set (chunks s) \<Longrightarrow> for_each (ensure_chunk R) ps s = Inr s"
  by (induction ps) (auto simp: ensure_chunk_def)

lemma fold_delete:
  "fold (\<lambda>chunk_pos self. self\<lparr>chunks := AList.delete chunk_pos (chunks self)\<rparr>) ps s
     = s\<lparr>chunks := filter (\<lambda>p. fst p \<notin> set ps) (chunks s)\<rparr>"
proof (induction ps arbitrary: s)
  case Nil
  then show ?case by simp
next
  case (Cons k ps)
  have "filter (\<lambda>p. fst p \<notin> set ps) (AList.delete k (chunks s))
          = filter (\<lambda>p. fst p \<notin> set (k # ps)) (chunks s)"
    by (auto simp: AList.delete_eq intro: filter_cong)
  then show ?case by (simp add: Cons.IH)
qed

lemma evict_eq:
  "fold (\<lambda>chunk_pos self. self\<lparr>chunks := AList.delete chunk_pos (chunks self)\<rparr>)
        (filter (\<lambda>chunk_pos. chunk_pos \<notin> N) (map fst (chunks s))) s
     = s\<lparr>chunks := filter (\<lambda>p. fst p \<in> N) (chunks s)\<rparr>"
proof -
  have "filter (\<lambda>p. fst p \<notin> set (filter (\<lambda>chunk_pos. chunk_pos \<notin> N) (map fst (chunks s)))) (chunks s)
          = filter (\<lambda>p. fst p \<in> N) (chunks s)"
    by (rule filter_cong) auto
  then show ?thesis by (simp add: fold_delete)
qed

lemma set_chunks_needed_of:
  "set (chunks_needed_of r c)
     = {(fst c + dx, snd c + dy) | dx dy. - r \<le> dx \<and> dx \<le> r \<and> - r \<le> dy \<and> dy \<le> r}"
  by (auto simp: chunks_needed_of_def py_range_def image_iff)

lemma distinct_chunks_needed_of: "distinct (chunks_needed_of r c)"
  unfolding chunks_needed_of_def
  by (rule distinct_map [THEN iffD2]) (auto simp: distinct_product py_range_def inj_on_def)

lemma length_chunks_needed_of: "0 \<le> r \<Longrightarrow> length (chunks_needed_of r c) = nat ((2 * r + 1)\<^sup>2)"
  by (simp add: chunks_needed_of_def length_py_range power2_eq_square nat_mult_distrib)

lemma card_chunks_needed_of: "0 \<le> r \<Longrightarrow> card (set (chunks_needed_of r c)) = nat ((2 * r + 1)\<^sup>2)"
  using distinct_card [OF distinct_chunks_needed_of, of r c] length_chunks_needed_of [of r c]
  by simp

lemma update_chunks_around_ok:
  assumes g: "textures s ''grass'' = Some g"
  shows "\<exists>s'. update_chunks_around R r c s = Inr s'
           \<and> textures s' = textures s \<and> terrain_mode s' = terrain_mode s
           \<and> camera_position s' = camera_position s
           \<and> (\<forall>name. set (scene s name) \<subseteq> set (scene s' name))
           \<and> fst ` set (chunks s') = set (chunks_needed_of r c)
           \<and> (store_inv s \<longrightarrow> store_inv s')
           \<and> (distinct (map fst (chunks s)) \<longrightarrow> distinct (map fst (chunks s')))
           \<and> (\<forall>p \<in> set (chunks s). fst p \<in> set (chunks_needed_of r c) \<longrightarrow> p \<in> set (chunks s'))"
proof -
  define N where "N = set (chunks_needed_of r c)"
  define s0 where "s0 = s\<lparr>chunks := filter (\<lambda>p. fst p \<in> N) (chunks s)\<rparr>"
  have upd: "update_chunks_around R r c s = for_each (ensure_chunk R) (chunks_needed_of r c) s0"
    by (simp add: update_chunks_around_def Let_def evict_eq s0_def N_def)
  have g0: "textures s0 ''grass'' = Some g" using g by (simp add: s0_def)
  from for_each_ensure_ok [OF g0, of R "chunks_needed_of r c"]
  obtain s' where run: "for_each (ensure_chunk R) (chunks_needed_of r c) s0 = Inr s'"
    and gr: "grows s0 s'"
    and keys: "fst ` set (chunks s') = set (chunks_needed_of r c) \<union> fst ` set (chunks s0)"
    and inv: "store_inv s0 \<longrightarrow> store_inv s'"
    and dist: "distinct (map fst (chunks s0)) \<longrightarrow> distinct (map fst (chunks s'))"
    and keep: "\<forall>p \<in> set (chunks s0). p \<in> set (chunks s')" by blast
  have k0: "fst ` set (chunks s0) \<subseteq> N" by (auto simp: s0_def)
  have i0: "store_inv s \<longrightarrow> store_inv s0" by (auto simp: store_inv_def s0_def)
  have d0: "distinct (map fst (chunks s)) \<longrightarrow> distinct (map fst (chunks s0))"
    by (simp add: s0_def distinct_map_filter)
  have sc: "\<forall>name. set (scene s name) \<subseteq> set (scene s' name)"
    using grows_scene_mono [OF gr] by (simp add: s0_def)
  have "fst ` set (chunks s') = set (chunks_needed_of r c)"
    using keys k0 by (auto simp: N_def)
  moreover have "\<forall>p \<in> set (chunks s). fst p \<in> set (chunks_needed_of r c) \<longrightarrow> p \<in> set (chunks s')"
    using keep by (auto simp: s0_def N_def)
  moreover have "textures s' = textures s \<and> terrain_mode s' = terrain_mode s
           \<and> camera_position s' = camera_position s"
    using gr by (simp add: grows_def s0_def)
  ultimately show ?thesis using upd run sc inv i0 dist d0 by auto
qed

lemma update_chunks_around_satisfied:
  assumes "fst ` set (chunks s) = set (chunks_needed_of r c)"
  shows "update_chunks_around R r c s = Inr s"
proof -
  have "filter (\<lambda>p. fst p \<in> set (chunks_needed_of r c)) (chunks s) = chunks s"
    using assms by (auto simp: filter_id_conv)
  then have "update_chunks_around R r c s = for_each (ensure_chunk R) (chunks_needed_of r c) s"
    by (simp add: update_chunks_around_def Let_def evict_eq)
  also have "\<dots> = Inr s"
    using assms by (intro for_each_ensure_present) simp
  finally show ?thesis .
qed

lemma for_each_sim:
  assumes step: "\<And>x a b. Rel a b \<Longrightarrow> rel_sum (=) Rel (f x a) (h x b)"
    and "Rel a b"
  shows "rel_sum (=) Rel (for_each f xs a) (for_each h xs b)"
  using assms(2)
proof (induction xs arbitrary: a b)
  case Nil
  then show ?case by simp
next
  case (Cons x xs)
  from step [OF Cons.prems, of x] show ?case
    by (cases "f x a"; cases "h x b") (auto intro: Cons.IH)
qed

lemma generate_terrain_element_mode:
  "terrain_mode s1 = terrain_mode s2 \<Longrightarrow>
     generate_terrain_element s1 tx ty rng = generate_terrain_element s2 tx ty rng"
  by (simp add: generate_terrain_element_def)

lemma generate_terrain_element_quantum:
  "terrain_mode s = ''quantum'' \<Longrightarrow>
     generate_terrain_element s tx ty rng = (quantum_terrain tx ty, rng)"
  by (simp add: generate_terrain_element_def)

lemma place_element_snd_textures:
  "textures s1 = textures s2 \<Longrightarrow>
     snd (place_element tx ty sx sy e (s1, cs)) = snd (place_element tx ty sx sy e (s2, cs))"
  by (auto simp: place_element_def Let_def split: option.splits)

lemma place_element_frame:
  "textures (fst (place_element tx ty sx sy e (s, cs))) = textures s
   \<and> terrain_mode (fst (place_element tx ty sx sy e (s, cs))) = terrain_mode s"
  using place_element_extends [of s cs tx ty sx sy e]
  by (cases "place_element tx ty sx sy e (s, cs)") (auto simp: extends_def)

lemma create_tile_unfold:
  assumes "textures s ''grass'' = Some g"
  shows "create_tile tx ty (rng, s, cs) =
     (let gs = \<lparr>texture = g, center_x = fst (iso_to_screen tx ty),
                 center_y = snd (iso_to_screen tx ty), iso_x = None, iso_y = None, hit_box = None\<rparr>;
          s1 = s\<lparr>scene := add_sprite LAYER_NAME_GROUND gs (scene s)\<rparr>;
          cs1 = cs\<lparr>ground := ground cs @ [gs]\<rparr>;
          er = generate_terrain_element s tx ty rng;
          pl = place_element tx ty (fst (iso_to_screen tx ty)) (snd (iso_to_screen tx ty)) (fst er) (s1, cs1)
      in Inr (snd er, fst pl, snd pl))"
proof -
  have "generate_terrain_element (s\<lparr>scene := sc\<rparr>) tx ty rng = generate_terrain_element s tx ty rng"
    for sc by (rule generate_terrain_element_mode) simp
  then show ?thesis
    using assms by (simp add: create_tile_def Let_def split_beta)
qed

lemma create_tile_sim:
  assumes "sim a b"
  shows "rel_sum (=) sim (create_tile tx ty a) (create_tile tx ty b)"
proof -
  obtain r1 s1 c1 where a: "a = (r1, s1, c1)" by (cases a)
  obtain r2 s2 c2 where b: "b = (r2, s2, c2)" by (cases b)
  from assms have c: "c1 = c2" and t: "textures s1 = textures s2"
    and m: "terrain_mode s1 = terrain_mode s2"
    and q: "terrain_mode s1 = ''quantum'' \<or> r1 = r2"
    by (auto simp: sim_def a b)
  show ?thesis
  proof (cases "textures s1 ''grass''")
    case None
    then have "textures s2 ''grass'' = None" using t by simp
    with None show ?thesis by (simp add: a b create_tile_def split_beta)
  next
    case (Some g)
    then have g2: "textures s2 ''grass'' = Some g" using t by simp
    define sx where "sx = fst (iso_to_screen tx ty)"
    define sy where "sy = snd (iso_to_screen tx ty)"
    define gs where "gs = \<lparr>texture = g, center_x = sx, center_y = sy,
                               iso_x = None, iso_y = None, hit_box = None\<rparr>"
    define w1 where "w1 = s1\<lparr>scene := add_sprite LAYER_NAME_GROUND gs (scene s1)\<rparr>"
    define w2 where "w2 = s2\<lparr>scene := add_sprite LAYER_NAME_GROUND gs (scene s2)\<rparr>"
    define cs where "cs = c1\<lparr>ground := ground c1 @ [gs]\<rparr>"
    define e1 where "e1 = generate_terrain_element s1 tx ty r1"
    define e2 where "e2 = generate_terrain_element s2 tx ty r2"
    define p1 where "p1 = place_element tx ty sx sy (fst e1) (w1, cs)"
    define p2 where "p2 = place_element tx ty sx sy (fst e2) (w2, cs)"
    have A: "create_tile tx ty a = Inr (snd e1, fst p1, snd p1)"
      unfolding a create_tile_unfold [OF Some]
      by (simp add: Let_def sx_def sy_def gs_def w1_def cs_def e1_def p1_def)
    have B: "create_tile tx ty b = Inr (snd e2, fst p2, snd p2)"
      unfolding b create_tile_unfold [OF g2]
      by (simp add: Let_def sx_def sy_def gs_def w2_def cs_def e2_def p2_def c)
    have e: "fst e1 = fst e2"
    proof (cases "terrain_mode s1 = ''quantum''")
      case True
      then show ?thesis
        using m by (simp add: e1_def e2_def generate_terrain_element_quantum)
    next
      case False
      then have "r1 = r2" using q by simp
      then show ?thesis
        unfolding e1_def e2_def using generate_terrain_element_mode [OF m] by simp
    qed
    have r: "terrain_mode s1 = ''quantum'' \<or> snd e1 = snd e2"
    proof (cases "terrain_mode s1 = ''quantum''")
      case True
      then show ?thesis by simp
    next
      case False
      then have "r1 = r2" using q by simp
      then show ?thesis
        unfolding e1_def e2_def using generate_terrain_element_mode [OF m] by simp
    qed
    have tw: "textures w1 = textures w2" using t by (simp add: w1_def w2_def)
    have sp: "snd p1 = snd p2"
      unfolding p1_def p2_def e by (rule place_element_snd_textures [OF tw])
    have f1: "textures (fst p1) = textures s1 \<and> terrain_mode (fst p1) = terrain_mode s1"
      unfolding p1_def using place_element_frame [of tx ty sx sy "fst e1" w1 cs]
      by (simp add: w1_def)
    have f2: "textures (fst p2) = textures s2 \<and> terrain_mode (fst p2) = terrain_mode s2"
      unfolding p2_def using place_element_frame [of tx ty sx sy "fst e2" w2 cs]
      by (simp add: w2_def)
    have "sim (snd e1, fst p1, snd p1) (snd e2, fst p2, snd p2)"
      unfolding sim_def using sp f1 f2 t m r by auto
    then show ?thesis by (simp add: A B)
  qed
qed

lemma create_chunk_sim:
  assumes "textures s1 = textures s2" and "terrain_mode s1 = terrain_mode s2"
    and "terrain_mode s1 = ''quantum'' \<or> R1 = R2"
  shows "map_sum id fst (create_chunk R1 s1 cx cy) = map_sum id fst (create_chunk R2 s2 cx cy)"
proof -
  let ?f = "\<lambda>(x, y). create_tile (cx * CHUNK_SIZE + x) (cy * CHUNK_SIZE + y)"
  let ?xs = "List.product (py_range 0 CHUNK_SIZE) (py_range 0 CHUNK_SIZE)"
  let ?e = "\<lparr>ground = [], objects = [], walls = []\<rparr>"
  have "sim (R1 (get_chunk_seed cx cy), s1, ?e) (R2 (get_chunk_seed cx cy), s2, ?e)"
    using assms by (auto simp: sim_def)
  then have "rel_sum (=) sim (for_each ?f ?xs (R1 (get_chunk_seed cx cy), s1, ?e))
                             (for_each ?f ?xs (R2 (get_chunk_seed cx cy), s2, ?e))"
    by (rule for_each_sim [rotated]) (auto intro: create_tile_sim)
  then show ?thesis
    by (cases "for_each ?f ?xs (R1 (get_chunk_seed cx cy), s1, ?e)";
        cases "for_each ?f ?xs (R2 (get_chunk_seed cx cy), s2, ?e)")
       (auto simp: create_chunk_def Let_def sim_def)
qed

lemma create_tile_InrD:
  assumes "textures s ''grass'' = Some g"
    and "create_tile tx ty (rng, s, cs) = Inr (rng', s', cs')"
  shows "cs' = snd (place_element tx ty (fst (iso_to_screen tx ty)) (snd (iso_to_screen tx ty))
                 (fst (generate_terrain_element s tx ty rng))
                 (s\<lparr>scene := add_sprite LAYER_NAME_GROUND (grass_sprite g tx ty) (scene s)\<rparr>,
                  cs\<lparr>ground := ground cs @ [grass_sprite g tx ty]\<rparr>))"
  using assms(2) unfolding create_tile_unfold [OF assms(1)]
  by (auto simp: Let_def grass_sprite_def)

lemma create_tile_ground_eq:
  assumes "textures s ''grass'' = Some g"
    and "create_tile tx ty (rng, s, cs) = Inr (rng', s', cs')"
  shows "ground cs' = ground cs @ [grass_sprite g tx ty] \<and> textures s' = textures s"
proof -
  have "ground cs' = ground cs @ [grass_sprite g tx ty]"
    unfolding create_tile_InrD [OF assms] by (simp add: place_element_ground)
  moreover have "textures s' = textures s"
    using create_tile_step [OF assms(1), of tx ty rng cs] assms(2)
    by (auto dest: extends_textures)
  ultimately show ?thesis by simp
qed

lemma for_each_ground:
  assumes "textures s ''grass'' = Some g"
    and "for_each (\<lambda>(x, y). create_tile (a + x) (b + y)) xs (rng, s, cs) = Inr (rng', s', cs')"
  shows "ground cs' = ground cs @ map (\<lambda>(x, y). grass_sprite g (a + x) (b + y)) xs"
  using assms
proof (induction xs arbitrary: rng s cs)
  case Nil
  then show ?case by simp
next
  case (Cons p xs)
  obtain x y where p: "p = (x, y)" by (cases p)
  from Cons.prems(2) obtain r1 s1 cs1 where
    1: "create_tile (a + x) (b + y) (rng, s, cs) = Inr (r1, s1, cs1)"
    and 2: "for_each (\<lambda>(x, y). create_tile (a + x) (b + y)) xs (r1, s1, cs1) = Inr (rng', s', cs')"
    by (auto simp: p split: sum.splits)
  from create_tile_ground_eq [OF Cons.prems(1) 1]
  have g1: "ground cs1 = ground cs @ [grass_sprite g (a + x) (b + y)]"
    and t1: "textures s1 ''grass'' = Some g" using Cons.prems(1) by simp_all
  from Cons.IH [OF t1 2] show ?case by (simp add: g1 p)
qed

lemma create_chunk_ground:
  assumes "textures s ''grass'' = Some g"
    and "create_chunk R s cx cy = Inr (cs, s')"
  shows "ground cs = map (\<lambda>(x, y). grass_sprite g (cx * CHUNK_SIZE + x) (cy * CHUNK_SIZE + y))
                       (List.product (py_range 0 CHUNK_SIZE) (py_range 0 CHUNK_SIZE))"
proof -
  from assms(2) obtain r' where
    "for_each (\<lambda>(x, y). create_tile (cx * CHUNK_SIZE + x) (cy * CHUNK_SIZE + y))
        (List.product (py_range 0 CHUNK_SIZE) (py_range 0 CHUNK_SIZE))
        (R (get_chunk_seed cx cy), s, \<lparr>ground = [], objects = [], walls = []\<rparr>) = Inr (r', s', cs)"
    by (auto simp: create_chunk_def Let_def split: sum.splits)
  from for_each_ground [OF assms(1) this] show ?thesis by simp
qed

lemma tiles_first:
  "List.product (py_range 0 CHUNK_SIZE) (py_range 0 CHUNK_SIZE)
     = (0, 0) # tl (List.product (py_range 0 CHUNK_SIZE) (py_range 0 CHUNK_SIZE))"
  by (simp add: py_range_def CHUNK_SIZE_def upto_rec1 [of 0 15])

lemma has_collision_log: "has_collision ''log''"
  by (simp add: has_collision_def collision_types_def)

lemma create_chunk_log_wall:
  assumes g: "textures s ''grass'' = Some g" and l: "textures s ''log'' = Some t"
    and m: "terrain_mode s \<noteq> ''quantum''"
    and c: "create_chunk log_draws s cx cy = Inr (cs, s')"
  shows "walls cs \<noteq> []"
proof -
  let ?f = "\<lambda>(x, y). create_tile (cx * CHUNK_SIZE + x) (cy * CHUNK_SIZE + y)"
  let ?xs = "List.product (py_range 0 CHUNK_SIZE) (py_range 0 CHUNK_SIZE)"
  let ?e = "\<lparr>ground = [], objects = [], walls = []\<rparr>"
  from c obtain r' where run: "for_each ?f ?xs (log_draws (get_chunk_seed cx cy), s, ?e) = Inr (r', s', cs)"
    by (auto simp: create_chunk_def Let_def split: sum.splits)
  have run': "for_each ?f ((0, 0) # tl ?xs) (log_draws (get_chunk_seed cx cy), s, ?e) = Inr (r', s', cs)"
    using run tiles_first by simp
  then obtain r1 s1 cs1 where
    1: "create_tile (cx * CHUNK_SIZE + 0) (cy * CHUNK_SIZE + 0) (log_draws (get_chunk_seed cx cy), s, ?e)
          = Inr (r1, s1, cs1)"
    and 2: "for_each ?f (tl ?xs) (r1, s1, cs1) = Inr (r', s', cs)"
    by (auto split: sum.splits)
  have e: "fst (generate_terrain_element s (cx * CHUNK_SIZE + 0) (cy * CHUNK_SIZE + 0)
                 (log_draws (get_chunk_seed cx cy))) = Some ''log''"
    using m by (simp add: generate_terrain_element_def random_def log_draws_def)
  have w1: "walls cs1 \<noteq> []"
    unfolding create_tile_InrD [OF g 1] e
    using l has_collision_log by (simp add: place_element_def Let_def)
  have g1: "textures s1 ''grass'' = Some g"
    using create_tile_ground_eq [OF g 1] g by simp
  from for_each_tiles [OF g1, of "cx * CHUNK_SIZE" "cy * CHUNK_SIZE" "tl ?xs" r1 cs1] 2
  have "extends (s1, cs1) (s', cs)" by auto
  then obtain d where "cs = cs_append cs1 d" by (auto simp: extends_def)
  then show ?thesis using w1 by (simp add: cs_append_def)
qed

lemma ensure_chunk_origin:
  assumes g: "textures s ''grass'' = Some g" and run: "ensure_chunk R pos s = Inr s'"
  shows "\<forall>p \<in> set (chunks s'). p \<in> set (chunks s)
           \<or> map_sum id fst (create_chunk R s (fst (fst p)) (snd (fst p))) = Inr (snd p)"
proof (cases "pos \<in> fst ` set (chunks s)")
  case True
  then have "s' = s" using run by (simp add: ensure_chunk_def)
  then show ?thesis by simp
next
  case False
  from create_chunk_ok [OF g, of R "fst pos" "snd pos"]
  obtain cs where cr: "create_chunk R s (fst pos) (snd pos)
            = Inr (cs, s\<lparr>scene := (\<lambda>name. scene s name @ layer_of cs name)\<rparr>)" by blast
  have "s' = s\<lparr>scene := (\<lambda>name. scene s name @ layer_of cs name),
                chunks := chunks s @ [(pos, cs)]\<rparr>"
    using run False cr by (simp add: ensure_chunk_def update_fresh)
  then show ?thesis using cr by auto
qed

lemma for_each_ensure_origin:
  assumes "textures s ''grass'' = Some g" and "for_each (ensure_chunk R) ps s = Inr s'"
  shows "\<forall>p \<in> set (chunks s'). p \<in> set (chunks s)
           \<or> map_sum id fst (create_chunk R s (fst (fst p)) (snd (fst p))) = Inr (snd p)"
  using assms
proof (induction ps arbitrary: s)
  case Nil
  then show ?case by simp
next
  case (Cons pos ps)
  from Cons.prems(2) obtain s1 where 1: "ensure_chunk R pos s = Inr s1"
    and 2: "for_each (ensure_chunk R) ps s1 = Inr s'"
    by (auto split: sum.splits)
  from ensure_chunk_ok [OF Cons.prems(1), of R pos] 1 have gr: "grows s s1" by auto
  then have t: "textures s1 = textures s" and m: "terrain_mode s1 = terrain_mode s"
    by (simp_all add: grows_def)
  have g1: "textures s1 ''grass'' = Some g" using t Cons.prems(1) by simp
  have same: "map_sum id fst (create_chunk R s1 cx cy) = map_sum id fst (create_chunk R s cx cy)"
    for cx cy by (rule create_chunk_sim) (simp_all add: t m)
  from Cons.IH [OF g1 2] ensure_chunk_origin [OF Cons.prems(1) 1]
  show ?case unfolding same by blast
qed

lemma update_chunks_around_origin:
  assumes g: "textures s ''grass'' = Some g" and run: "update_chunks_around R r c s = Inr s'"
  shows "\<forall>p \<in> set (chunks s'). p \<in> set (chunks s)
           \<or> map_sum id fst (create_chunk R s (fst (fst p)) (snd (fst p))) = Inr (snd p)"
proof -
  define s0 where "s0 = s\<lparr>chunks := filter (\<lambda>p. fst p \<in> set (chunks_needed_of r c)) (chunks s)\<rparr>"
  have run0: "for_each (ensure_chunk R) (chunks_needed_of r c) s0 = Inr s'"
    using run by (simp add: update_chunks_around_def Let_def evict_eq s0_def)
  have g0: "textures s0 ''grass'' = Some g" using g by (simp add: s0_def)
  have same: "map_sum id fst (create_chunk R s0 cx cy) = map_sum id fst (create_chunk R s cx cy)"
    for cx cy by (rule create_chunk_sim) (simp_all add: s0_def)
  have sub: "set (chunks s0) \<subseteq> set (chunks s)" by (auto simp: s0_def)
  from for_each_ensure_origin [OF g0 run0] sub show ?thesis unfolding same by blast
qed

lemma center_start: "screen_to_chunk (0 + of_int SCREEN_WIDTH / 2) (0 + of_int SCREEN_HEIGHT / 2) = (0, 0)"
  by (simp add: screen_to_chunk_def Let_def consts_defs py_int_def)

lemma center_moved:
  "screen_to_chunk (1024 + of_int SCREEN_WIDTH / 2) (0 + of_int SCREEN_HEIGHT / 2) = (1, 0)"
proof -
  have "\<lfloor>13 / 8 :: real\<rfloor> = 1" by linarith
  moreover have "\<lfloor>45 / 64 :: real\<rfloor> = 0" by linarith
  ultimately show ?thesis
    by (simp add: screen_to_chunk_def Let_def consts_defs py_int_def)
qed

lemma corner_needed: "(- 4, - 4) \<in> set (chunks_needed_of 4 (0, 0))"
  by (simp add: set_chunks_needed_of)

lemma corner_not_needed: "(- 4, - 4) \<notin> set (chunks_needed_of 4 (1, 0))"
  by (simp add: set_chunks_needed_of)

lemma store_invD:
  assumes "store_inv s" and "(pos, cs) \<in> set (chunks s)"
  shows "length (ground cs) = 256 \<and> (\<forall>name. set (layer_of cs name) \<subseteq> set (scene s name))"
proof -
  from assms have "length (ground (snd (pos, cs))) = 256
      \<and> (\<forall>name. set (layer_of (snd (pos, cs)) name) \<subseteq> set (scene s name))"
    unfolding store_inv_def by (rule bspec)
  then show ?thesis by simp
qed

lemma evicted_stay:
  assumes g: "T ''grass'' = Some g"
  shows "\<exists>s1 s2 cs.
       update_chunks R \<lparr>camera_position = (0, 0), scene = (\<lambda>_. []), textures = T, chunks = [],
                        terrain_mode = m\<rparr> = Inr s1
     \<and> textures s1 = T \<and> terrain_mode s1 = m
     \<and> update_chunks R (s1\<lparr>camera_position := (1024, 0)\<rparr>) = Inr s2
     \<and> ((- 4, - 4), cs) \<in> set (chunks s1)
     \<and> map_sum id fst (create_chunk R s1 (- 4) (- 4)) = Inr cs
     \<and> (- 4, - 4) \<notin> fst ` set (chunks s2)
     \<and> length (ground cs) = 256
     \<and> set (ground cs) \<subseteq> set (scene s2 LAYER_NAME_GROUND)
     \<and> set (objects cs) \<subseteq> set (scene s2 LAYER_NAME_OBJECTS)
     \<and> set (walls cs) \<subseteq> set (scene s2 LAYER_NAME_WALLS)"
proof -
  define s0 where "s0 = \<lparr>camera_position = (0, 0), scene = (\<lambda>_. []), textures = T, chunks = [],
                        terrain_mode = m\<rparr>"
  have g0: "textures s0 ''grass'' = Some g" using g by (simp add: s0_def)
  have u0: "update_chunks R s0 = update_chunks_around R 4 (0, 0) s0"
    using center_start by (simp add: update_chunks_def Let_def s0_def RENDER_DISTANCE_def)
  have inv0: "store_inv s0" by (simp add: store_inv_def s0_def)
  from update_chunks_around_ok [OF g0, of R 4 "(0, 0)"] inv0
  obtain s1 where run1: "update_chunks_around R 4 (0, 0) s0 = Inr s1"
    and t1: "textures s1 = textures s0" and m1: "terrain_mode s1 = terrain_mode s0"
    and k1: "fst ` set (chunks s1) = set (chunks_needed_of 4 (0, 0))"
    and inv1: "store_inv s1" by blast
  from k1 corner_needed obtain cs where cs: "((- 4, - 4), cs) \<in> set (chunks s1)"
    by (metis (no_types, lifting) fst_conv image_iff prod.collapse)
  from update_chunks_around_origin [OF g0 run1] cs
  have "map_sum id fst (create_chunk R s0 (- 4) (- 4)) = Inr cs"
    by (auto simp: s0_def)
  moreover have "map_sum id fst (create_chunk R s1 (- 4) (- 4))
      = map_sum id fst (create_chunk R s0 (- 4) (- 4))"
    by (rule create_chunk_sim) (simp_all add: t1 m1)
  ultimately have made: "map_sum id fst (create_chunk R s1 (- 4) (- 4)) = Inr cs" by simp
  from store_invD [OF inv1 cs] have len: "length (ground cs) = 256"
    and lay: "\<And>name. set (layer_of cs name) \<subseteq> set (scene s1 name)"
    by simp_all
  define s1' where "s1' = s1\<lparr>camera_position := (1024, 0)\<rparr>"
  have g1: "textures s1' ''grass'' = Some g" using t1 g0 by (simp add: s1'_def)
  have u1: "update_chunks R s1' = update_chunks_around R 4 (1, 0) s1'"
    using center_moved by (simp add: update_chunks_def Let_def s1'_def RENDER_DISTANCE_def)
  from update_chunks_around_ok [OF g1, of R 4 "(1, 0)"]
  obtain s2 where run2: "update_chunks_around R 4 (1, 0) s1' = Inr s2"
    and sc2: "\<forall>name. set (scene s1' name) \<subseteq> set (scene s2 name)"
    and k2: "fst ` set (chunks s2) = set (chunks_needed_of 4 (1, 0))" by blast
  have gone: "(- 4, - 4) \<notin> fst ` set (chunks s2)"
    using k2 corner_not_needed by simp
  have stay: "set (layer_of cs name) \<subseteq> set (scene s2 name)" for name
    using lay [of name] sc2 by (auto simp: s1'_def)
  have G: "set (ground cs) \<subseteq> set (scene s2 LAYER_NAME_GROUND)"
    using stay [of LAYER_NAME_GROUND] by (simp add: layer_of_def)
  have O: "set (objects cs) \<subseteq> set (scene s2 LAYER_NAME_OBJECTS)"
    using stay [of LAYER_NAME_OBJECTS] by (simp add: layer_of_def layer_names)
  have W: "set (walls cs) \<subseteq> set (scene s2 LAYER_NAME_WALLS)"
    using stay [of LAYER_NAME_WALLS] by (simp add: layer_of_def layer_names)
  have A: "update_chunks R \<lparr>camera_position = (0, 0), scene = (\<lambda>_. []), textures = T,
                             chunks = [], terrain_mode = m\<rparr> = Inr s1"
    using u0 run1 by (simp add: s0_def)
  have B: "update_chunks R (s1\<lparr>camera_position := (1024, 0)\<rparr>) = Inr s2"
    using u1 run2 by (simp add: s1'_def)
  have T: "textures s1 = T" and M: "terrain_mode s1 = m"
    using t1 m1 by (simp_all add: s0_def)
  show ?thesis
    using A T M B cs made gone len G O W by blast
qed

lemma create_chunk_no_grass:
  assumes "textures s ''grass'' = None"
  shows "create_chunk R s cx cy = Inl KeyError"
proof -
  have "create_tile tx ty (rng, s, cs) = Inl KeyError" for tx ty rng cs
    using assms by (simp add: create_tile_def split_beta)
  then show ?thesis
    unfolding create_chunk_def Let_def by (subst tiles_first) simp
qed

lemma create_chunk_ground_only_grass:
  assumes "textures s1 ''grass'' = textures s2 ''grass''"
  shows "map_sum id (ground \<circ> fst) (create_chunk R1 s1 cx cy)
           = map_sum id (ground \<circ> fst) (create_chunk R2 s2 cx cy)"
proof (cases "textures s1 ''grass''")
  case None
  then show ?thesis using assms by (simp add: create_chunk_no_grass)
next
  case (Some g)
  then have g2: "textures s2 ''grass'' = Some g" using assms by simp
  from create_chunk_ok [OF Some, of R1 cx cy] obtain c1 w1
    where 1: "create_chunk R1 s1 cx cy = Inr (c1, w1)" by blast
  from create_chunk_ok [OF g2, of R2 cx cy] obtain c2 w2
    where 2: "create_chunk R2 s2 cx cy = Inr (c2, w2)" by blast
  show ?thesis
    using create_chunk_ground [OF Some 1] create_chunk_ground [OF g2 2] by (simp add: 1 2)
qed

text \<open>
  C4. With a grass texture in the table (without one \<open>create_chunk\<close> raises \<open>KeyError\<close>),
  the body of \<open>update_chunks\<close> for a center chunk \<open>c\<close> and a render distance \<open>r\<close> returns, and
  the keys of the resident chunks are then exactly the square of the pairs
  \<open>(fst c + dx, snd c + dy)\<close> with \<open>dx\<close> and \<open>dy\<close> from \<open>- r\<close> to \<open>r\<close>: \<open>(2 r + 1)\<^sup>2\<close> keys,
  none twice when none was twice before. Run again on its own result it returns that
  result unchanged. The same holds of \<open>update_chunks\<close> itself, whose square has 81 keys around
  the chunk of the camera.
\<close>

theorem update_chunks_window:
  assumes "textures s ''grass'' \<noteq> None"
  shows "(\<exists>s'. update_chunks_around R r c s = Inr s'
           \<and> fst ` set (chunks s')
               = {(fst c + dx, snd c + dy) | dx dy. - r \<le> dx \<and> dx \<le> r \<and> - r \<le> dy \<and> dy \<le> r}
           \<and> (0 \<le> r \<longrightarrow> card (fst ` set (chunks s')) = nat ((2 * r + 1)\<^sup>2))
           \<and> (distinct (map fst (chunks s)) \<longrightarrow> distinct (map fst (chunks s')))
           \<and> update_chunks_around R r c s' = Inr s')
       \<and> (\<exists>s'. update_chunks R s = Inr s'
           \<and> fst ` set (chunks s')
               = {(fst (screen_to_chunk (fst (camera_position s) + of_int SCREEN_WIDTH / 2)
                                        (snd (camera_position s) + of_int SCREEN_HEIGHT / 2)) + dx,
                   snd (screen_to_chunk (fst (camera_position s) + of_int SCREEN_WIDTH / 2)
                                        (snd (camera_position s) + of_int SCREEN_HEIGHT / 2)) + dy)
                  | dx dy. - RENDER_DISTANCE \<le> dx \<and> dx \<le> RENDER_DISTANCE
                         \<and> - RENDER_DISTANCE \<le> dy \<and> dy \<le> RENDER_DISTANCE}
           \<and> card (fst ` set (chunks s')) = 81
           \<and> update_chunks R s' = Inr s')"
proof -
  from assms obtain g where g: "textures s ''grass'' = Some g" by auto
  have first: "\<exists>s'. update_chunks_around R r c s = Inr s'
           \<and> fst ` set (chunks s')
               = {(fst c + dx, snd c + dy) | dx dy. - r \<le> dx \<and> dx \<le> r \<and> - r \<le> dy \<and> dy \<le> r}
           \<and> (0 \<le> r \<longrightarrow> card (fst ` set (chunks s')) = nat ((2 * r + 1)\<^sup>2))
           \<and> (distinct (map fst (chunks s)) \<longrightarrow> distinct (map fst (chunks s')))
           \<and> update_chunks_around R r c s' = Inr s'"
  proof -
    from update_chunks_around_ok [OF g, of R r c]
    obtain s' where run: "update_chunks_around R r c s = Inr s'"
      and keys: "fst ` set (chunks s') = set (chunks_needed_of r c)"
      and dist: "distinct (map fst (chunks s)) \<longrightarrow> distinct (map fst (chunks s'))" by blast
    have again: "update_chunks_around R r c s' = Inr s'"
      using keys by (rule update_chunks_around_satisfied)
    have card: "0 \<le> r \<longrightarrow> card (fst ` set (chunks s')) = nat ((2 * r + 1)\<^sup>2)"
      using card_chunks_needed_of [of r c] by (simp add: keys)
    have keys': "fst ` set (chunks s')
               = {(fst c + dx, snd c + dy) | dx dy. - r \<le> dx \<and> dx \<le> r \<and> - r \<le> dy \<and> dy \<le> r}"
      unfolding keys by (rule set_chunks_needed_of)
    show ?thesis
      by (rule exI [of _ s']) (intro conjI run keys' card dist again)
  qed
  define ctr where "ctr = screen_to_chunk (fst (camera_position s) + of_int SCREEN_WIDTH / 2)
                                         (snd (camera_position s) + of_int SCREEN_HEIGHT / 2)"
  have second: "\<exists>s'. update_chunks R s = Inr s'
           \<and> fst ` set (chunks s')
               = {(fst ctr + dx, snd ctr + dy) | dx dy. - RENDER_DISTANCE \<le> dx \<and> dx \<le> RENDER_DISTANCE
                     \<and> - RENDER_DISTANCE \<le> dy \<and> dy \<le> RENDER_DISTANCE}
           \<and> card (fst ` set (chunks s')) = 81
           \<and> update_chunks R s' = Inr s'"
  proof -
    from update_chunks_around_ok [OF g, of R RENDER_DISTANCE ctr]
    obtain s' where run: "update_chunks_around R RENDER_DISTANCE ctr s = Inr s'"
      and cam: "camera_position s' = camera_position s"
      and keys: "fst ` set (chunks s') = set (chunks_needed_of RENDER_DISTANCE ctr)" by blast
    have again: "update_chunks_around R RENDER_DISTANCE ctr s' = Inr s'"
      using keys by (rule update_chunks_around_satisfied)
    have 1: "update_chunks R s = Inr s'"
      using run by (simp add: update_chunks_def Let_def ctr_def)
    have 2: "update_chunks R s' = Inr s'"
      using again cam by (simp add: update_chunks_def Let_def ctr_def)
    have 3: "card (fst ` set (chunks s')) = 81"
      using card_chunks_needed_of [of RENDER_DISTANCE ctr] by (simp add: keys RENDER_DISTANCE_def)
    have keys': "fst ` set (chunks s')
               = {(fst ctr + dx, snd ctr + dy) | dx dy. - RENDER_DISTANCE \<le> dx \<and> dx \<le> RENDER_DISTANCE
                     \<and> - RENDER_DISTANCE \<le> dy \<and> dy \<le> RENDER_DISTANCE}"
      unfolding keys by (rule set_chunks_needed_of)
    show ?thesis
      by (rule exI [of _ s']) (intro conjI 1 keys' 3 2)
  qed
  show ?thesis
    using first second [unfolded ctr_def] by (rule conjI)
qed

text \<open>
  C9. The lists that \<open>create_chunk\<close> returns for a chunk do not depend on the window it runs
  on but for the texture table and the generation mode: two creations of the chunk, on two
  windows with these in common (whatever their scenes, resident chunks and cameras), return
  the same lists or raise the same error. In the random mode the two use the same function
  from seeds to generators, and each seeds its own generator from the chunk's seed; in the
  quantum mode the generator plays no part. With a grass texture the creation returns, with
  one ground placement for each of the 256 tiles, in the order of the loop.
\<close>

theorem create_chunk_idempotent:
  assumes "textures s1 = textures s2" and "terrain_mode s1 = terrain_mode s2"
    and "terrain_mode s1 = ''quantum'' \<or> R1 = R2"
  shows "map_sum id fst (create_chunk R1 s1 cx cy) = map_sum id fst (create_chunk R2 s2 cx cy)
       \<and> (textures s1 ''grass'' \<noteq> None \<longrightarrow>
            (\<exists>cs s'. create_chunk R1 s1 cx cy = Inr (cs, s')
               \<and> length (ground cs) = 256
               \<and> ground cs = map (\<lambda>(x, y). grass_sprite (the (textures s1 ''grass''))
                                              (cx * CHUNK_SIZE + x) (cy * CHUNK_SIZE + y))
                                (List.product (py_range 0 CHUNK_SIZE) (py_range 0 CHUNK_SIZE))))"
proof -
  have A: "map_sum id fst (create_chunk R1 s1 cx cy) = map_sum id fst (create_chunk R2 s2 cx cy)"
    using assms by (rule create_chunk_sim)
  have B: "\<exists>cs s'. create_chunk R1 s1 cx cy = Inr (cs, s')
               \<and> length (ground cs) = 256
               \<and> ground cs = map (\<lambda>(x, y). grass_sprite (the (textures s1 ''grass''))
                                              (cx * CHUNK_SIZE + x) (cy * CHUNK_SIZE + y))
                                (List.product (py_range 0 CHUNK_SIZE) (py_range 0 CHUNK_SIZE))"
    if "textures s1 ''grass'' \<noteq> None"
  proof -
    from that obtain g where g: "textures s1 ''grass'' = Some g" by auto
    from create_chunk_ok [OF g, of R1 cx cy] obtain cs s'
      where c: "create_chunk R1 s1 cx cy = Inr (cs, s')" and l: "length (ground cs) = 256" by blast
    from create_chunk_ground [OF g c] c l g show ?thesis by auto
  qed
  show ?thesis using A B by blast
qed

theorem create_chunk_idempotent_witness:
  "map_sum id fst (create_chunk log_draws (start_window [''grass'' \<mapsto> ''ground_grass_NE''] ''random'') 3 (- 2))
     = map_sum id fst (create_chunk log_draws
         ((start_window [''grass'' \<mapsto> ''ground_grass_NE''] ''random'')
            \<lparr>camera_position := (1024, 0),
             chunks := [((9, 9), \<lparr>ground = [], objects = [], walls = []\<rparr>)]\<rparr>) 3 (- 2))
   \<and> (\<exists>cs s'. create_chunk log_draws (start_window [''grass'' \<mapsto> ''ground_grass_NE''] ''random'') 3 (- 2)
                 = Inr (cs, s')
          \<and> length (ground cs) = 256)"
proof -
  let ?s1 = "start_window [''grass'' \<mapsto> ''ground_grass_NE''] ''random''"
  let ?s2 = "?s1\<lparr>camera_position := (1024, 0),
             chunks := [((9, 9), \<lparr>ground = [], objects = [], walls = []\<rparr>)]\<rparr>"
  have 1: "textures ?s1 = textures ?s2" by simp
  have 2: "terrain_mode ?s1 = terrain_mode ?s2" by simp
  have 3: "terrain_mode ?s1 = ''quantum'' \<or> log_draws = log_draws" by simp
  have 4: "textures ?s1 ''grass'' \<noteq> None" by (simp add: start_window_def)
  from create_chunk_idempotent [OF 1 2 3, of 3 "- 2"] 4 show ?thesis by blast
qed

theorem update_chunks_window_witness:
  "\<exists>s'. update_chunks log_draws (start_window [''grass'' \<mapsto> ''ground_grass_NE''] ''quantum'') = Inr s'
       \<and> card (fst ` set (chunks s')) = 81
       \<and> update_chunks log_draws s' = Inr s'"
proof -
  have h: "textures (start_window [''grass'' \<mapsto> ''ground_grass_NE''] ''quantum'') ''grass'' \<noteq> None"
    by (simp add: start_window_def)
  from update_chunks_window [OF h, of log_draws 4 "(0, 0)"]
  obtain s' where "update_chunks log_draws (start_window [''grass'' \<mapsto> ''ground_grass_NE''] ''quantum'') = Inr s'"
    and "card (fst ` set (chunks s')) = 81" and "update_chunks log_draws s' = Inr s'"
    by (elim conjE exE)
  then show ?thesis by (intro exI [of _ s'] conjI)
qed

text \<open>
  C5, as the code has it. The window starts with an empty scene and no chunk, at camera
  \<open>(0, 0)\<close>; \<open>update_chunks\<close> runs, the camera moves to \<open>(1024, 0)\<close>, and \<open>update_chunks\<close>
  runs again. The chunk \<open>(-4, -4)\<close> is resident after the first run and is not after the
  second: it has been evicted. Its 256 ground sprites, its objects and its walls are all
  still in the layers of the scene after the second run: the eviction deletes the entry of
  \<open>self.chunks\<close> and nothing else.
\<close>

theorem evicted_sprites_stay:
  assumes g: "T ''grass'' \<noteq> None"
  shows "\<exists>s1 s2 cs.
       update_chunks R (start_window T m) = Inr s1
     \<and> textures s1 = T \<and> terrain_mode s1 = m
     \<and> update_chunks R (s1\<lparr>camera_position := (1024, 0)\<rparr>) = Inr s2
     \<and> ((- 4, - 4), cs) \<in> set (chunks s1)
     \<and> map_sum id fst (create_chunk R s1 (- 4) (- 4)) = Inr cs
     \<and> (- 4, - 4) \<notin> fst ` set (chunks s2)
     \<and> length (ground cs) = 256
     \<and> set (ground cs) \<subseteq> set (scene s2 LAYER_NAME_GROUND)
     \<and> set (objects cs) \<subseteq> set (scene s2 LAYER_NAME_OBJECTS)
     \<and> set (walls cs) \<subseteq> set (scene s2 LAYER_NAME_WALLS)"
proof -
  from g obtain t where t: "T ''grass'' = Some t" by auto
  show ?thesis
    unfolding start_window_def
    by (rule evicted_stay [where T = T and g = t and R = R and m = m, OF t])
qed

theorem evicted_sprites_stay_witness:
  "\<exists>s1 s2 cs.
       update_chunks log_draws
         (start_window [''grass'' \<mapsto> ''ground_grass_NE'', ''log'' \<mapsto> ''log_NE''] ''random'') = Inr s1
     \<and> update_chunks log_draws (s1\<lparr>camera_position := (1024, 0)\<rparr>) = Inr s2
     \<and> ((- 4, - 4), cs) \<in> set (chunks s1)
     \<and> (- 4, - 4) \<notin> fst ` set (chunks s2)
     \<and> length (ground cs) = 256
     \<and> set (ground cs) \<subseteq> set (scene s2 LAYER_NAME_GROUND)
     \<and> walls cs \<noteq> []
     \<and> set (walls cs) \<subseteq> set (scene s2 LAYER_NAME_WALLS)"
proof -
  let ?T = "[''grass'' \<mapsto> ''ground_grass_NE'', ''log'' \<mapsto> ''log_NE'']"
  have h: "?T ''grass'' \<noteq> None" by simp
  from evicted_sprites_stay [where T = ?T and R = log_draws and m = "''random''", OF h]
  obtain s1 s2 cs where 1: "update_chunks log_draws (start_window ?T ''random'') = Inr s1"
    and t: "textures s1 = ?T" and m: "terrain_mode s1 = ''random''"
    and 2: "update_chunks log_draws (s1\<lparr>camera_position := (1024, 0)\<rparr>) = Inr s2"
    and 3: "((- 4, - 4), cs) \<in> set (chunks s1)"
    and made: "map_sum id fst (create_chunk log_draws s1 (- 4) (- 4)) = Inr cs"
    and 4: "(- 4, - 4) \<notin> fst ` set (chunks s2)"
    and 5: "length (ground cs) = 256"
    and 6: "set (ground cs) \<subseteq> set (scene s2 LAYER_NAME_GROUND)"
    and 7: "set (walls cs) \<subseteq> set (scene s2 LAYER_NAME_WALLS)"
    by (elim conjE exE)
  from made obtain s' where c: "create_chunk log_draws s1 (- 4) (- 4) = Inr (cs, s')"
    by (cases "create_chunk log_draws s1 (- 4) (- 4)") auto
  have tg: "textures s1 ''grass'' = Some ''ground_grass_NE''" by (simp add: t)
  have tl: "textures s1 ''log'' = Some ''log_NE''" by (simp add: t)
  have mq: "terrain_mode s1 \<noteq> ''quantum''" by (simp add: m)
  have 8: "walls cs \<noteq> []" by (rule create_chunk_log_wall [OF tg tl mq c])
  show ?thesis
    by (intro exI [of _ s1] exI [of _ s2] exI [of _ cs] conjI 1 2 3 4 5 6 8 7)
qed

subsection \<open>What a chunk holds, element by element\<close>

lemma elements_of_mode:
  "terrain_mode s1 = terrain_mode s2 \<Longrightarrow> elements_of s1 ts rng = elements_of s2 ts rng"
  by (induction ts arbitrary: rng) (simp_all add: generate_terrain_element_mode [of s1 s2])

lemma placed_textures: "textures s1 = textures s2 \<Longrightarrow> placed s1 el = placed s2 el"
  unfolding placed_def by (rule place_element_snd_textures)

lemma place_element_split:
  "snd (place_element tx ty sx sy e (s, cs))
     = cs_append cs (snd (place_element tx ty sx sy e (s, \<lparr>ground = [], objects = [], walls = []\<rparr>)))"
  by (auto simp: place_element_def Let_def cs_append_def split: option.splits)

lemma create_tile_rng:
  assumes "textures s ''grass'' = Some g"
    and "create_tile tx ty (rng, s, cs) = Inr (rng', s', cs')"
  shows "rng' = snd (generate_terrain_element s tx ty rng)"
  using assms(2) unfolding create_tile_unfold [OF assms(1)] by (auto simp: Let_def)

lemma create_tile_frame:
  assumes "textures s ''grass'' = Some g"
    and "create_tile tx ty (rng, s, cs) = Inr (rng', s', cs')"
  shows "textures s' = textures s \<and> terrain_mode s' = terrain_mode s"
  using create_tile_step [OF assms(1), of tx ty rng cs] assms(2)
  by (auto simp: extends_def)

lemma create_tile_explicit:
  assumes g: "textures s ''grass'' = Some g"
    and run: "create_tile tx ty (rng, s, cs) = Inr (rng', s', cs')"
  shows "cs' = cs_append cs
           (chunk_part g s [(tx, ty, fst (generate_terrain_element s tx ty rng))])"
proof -
  let ?e = "fst (generate_terrain_element s tx ty rng)"
  let ?sx = "fst (iso_to_screen tx ty)" and ?sy = "snd (iso_to_screen tx ty)"
  let ?s1 = "s\<lparr>scene := add_sprite LAYER_NAME_GROUND (grass_sprite g tx ty) (scene s)\<rparr>"
  have "cs' = snd (place_element tx ty ?sx ?sy ?e (?s1, cs\<lparr>ground := ground cs @ [grass_sprite g tx ty]\<rparr>))"
    by (rule create_tile_InrD [OF g run])
  also have "\<dots> = cs_append (cs\<lparr>ground := ground cs @ [grass_sprite g tx ty]\<rparr>)
       (snd (place_element tx ty ?sx ?sy ?e (?s1, \<lparr>ground = [], objects = [], walls = []\<rparr>)))"
    by (rule place_element_split)
  also have "snd (place_element tx ty ?sx ?sy ?e (?s1, \<lparr>ground = [], objects = [], walls = []\<rparr>))
       = placed s (tx, ty, ?e)"
    unfolding placed_def by (simp add: place_element_snd_textures [of ?s1 s])
  finally show ?thesis
    by (simp add: cs_append_def chunk_part_def place_element_ground placed_def)
qed

lemma chunk_part_Cons:
  "cs_append (cs_append cs (chunk_part g s [el])) (chunk_part g s els)
     = cs_append cs (chunk_part g s (el # els))"
  by (simp add: cs_append_def chunk_part_def)

lemma for_each_explicit:
  assumes "textures s ''grass'' = Some g"
    and "for_each (\<lambda>(x, y). create_tile (a + x) (b + y)) xs (rng, s, cs) = Inr (rng', s', cs')"
  shows "cs' = cs_append cs
           (chunk_part g s (elements_of s (map (\<lambda>(x, y). (a + x, b + y)) xs) rng))"
  using assms
proof (induction xs arbitrary: rng s cs)
  case Nil
  then show ?case by (simp add: cs_append_def chunk_part_def)
next
  case (Cons p xs)
  obtain x y where p: "p = (x, y)" by (cases p)
  from Cons.prems(2) obtain r1 s1 cs1 where
    1: "create_tile (a + x) (b + y) (rng, s, cs) = Inr (r1, s1, cs1)"
    and 2: "for_each (\<lambda>(x, y). create_tile (a + x) (b + y)) xs (r1, s1, cs1) = Inr (rng', s', cs')"
    by (auto simp: p split: sum.splits)
  have fr: "textures s1 = textures s" "terrain_mode s1 = terrain_mode s"
    using create_tile_frame [OF Cons.prems(1) 1] by simp_all
  have g1: "textures s1 ''grass'' = Some g" using fr Cons.prems(1) by simp
  have r1: "r1 = snd (generate_terrain_element s (a + x) (b + y) rng)"
    by (rule create_tile_rng [OF Cons.prems(1) 1])
  have c1: "cs1 = cs_append cs
           (chunk_part g s [(a + x, b + y, fst (generate_terrain_element s (a + x) (b + y) rng))])"
    by (rule create_tile_explicit [OF Cons.prems(1) 1])
  have same: "chunk_part g s1 els = chunk_part g s els" for els
    unfolding chunk_part_def using placed_textures [OF fr(1)] by (simp add: comp_def)
  from Cons.IH [OF g1 2]
  have "cs' = cs_append cs1
           (chunk_part g s (elements_of s (map (\<lambda>(x, y). (a + x, b + y)) xs) r1))"
    by (simp add: same elements_of_mode [OF fr(2)])
  then show ?case
    unfolding c1 chunk_part_Cons by (simp add: p r1)
qed

lemma create_chunk_explicit:
  assumes g: "textures s ''grass'' = Some g"
  shows "\<exists>w. create_chunk R s cx cy = Inr (chunk_part g s (chunk_elements R s cx cy), w)"
proof -
  from create_chunk_ok [OF g, of R cx cy] obtain cs w
    where c: "create_chunk R s cx cy = Inr (cs, w)" by blast
  then obtain r' where run:
    "for_each (\<lambda>(x, y). create_tile (cx * CHUNK_SIZE + x) (cy * CHUNK_SIZE + y))
        (List.product (py_range 0 CHUNK_SIZE) (py_range 0 CHUNK_SIZE))
        (R (get_chunk_seed cx cy), s, \<lparr>ground = [], objects = [], walls = []\<rparr>) = Inr (r', w, cs)"
    by (auto simp: create_chunk_def Let_def split: sum.splits)
  from for_each_explicit [OF g run]
  have "cs = chunk_part g s (chunk_elements R s cx cy)"
    by (simp add: cs_append_empty_left chunk_elements_def chunk_tiles_def)
  with c show ?thesis by blast
qed

lemma placed_missing:
  "textures s k = None \<Longrightarrow> placed s (tx, ty, Some k) = \<lparr>ground = [], objects = [], walls = []\<rparr>"
  by (simp add: placed_def place_element_def)

lemma placed_removed:
  "placed (s\<lparr>textures := (textures s)(k := None)\<rparr>) el
     = (if other_kind k el then placed s el else \<lparr>ground = [], objects = [], walls = []\<rparr>)"
  by (auto simp: placed_def place_element_def other_kind_def Let_def split: option.splits)

lemma concat_removed:
  "concat (map (f \<circ> placed (s\<lparr>textures := (textures s)(k := None)\<rparr>)) els)
     = concat (map (f \<circ> placed s) (filter (other_kind k) els))"
  if "f \<lparr>ground = [], objects = [], walls = []\<rparr> = []"
  using that by (induction els) (simp_all add: placed_removed)

lemma load_full: "load_textures every_file Map.empty = Inr full_table"
  by (simp add: load_textures_def texture_files_def every_file_def full_table_def fun_eq_iff)

lemma load_trees: "load_textures but_stone_tall Map.empty = Inr trees_table"
  by (simp add: load_textures_def texture_files_def but_stone_tall_def trees_table_def fun_eq_iff)

lemma chunk_elements_removed:
  "chunk_elements R (s\<lparr>textures := T\<rparr>) cx cy = chunk_elements R s cx cy"
  unfolding chunk_elements_def by (rule elements_of_mode) simp

lemma chunk_elements_quantum:
  assumes "terrain_mode s = ''quantum''"
  shows "chunk_elements R s cx cy
           = map (\<lambda>t. (fst t, snd t, quantum_terrain (fst t) (snd t))) (chunk_tiles cx cy)"
proof -
  have "elements_of s ts rng = map (\<lambda>t. (fst t, snd t, quantum_terrain (fst t) (snd t))) ts"
    for ts rng
    by (induction ts arbitrary: rng) (simp_all add: generate_terrain_element_quantum [OF assms])
  then show ?thesis by (simp add: chunk_elements_def)
qed

text \<open>
  C6, as the code has it. Let the table have a grass texture and let \<open>k\<close> be another key.
  \<open>create_chunk\<close> returns a chunk on the window and on the window whose table lacks \<open>k\<close>,
  in either terrain mode and for any generator. With the table complete, the objects and
  the walls of the chunk are what \<open>place_element\<close> places for the elements generated for its
  tiles, in the order of the tiles. Without \<open>k\<close> the generated elements are the same ones,
  the ground placements are the same, and the objects and the walls are what is placed,
  with the complete table, for the elements other than \<open>k\<close>: every placement of another
  kind is kept as it is and every placement of \<open>k\<close> is gone. For an element \<open>k\<close> nothing is
  placed: no sprite, no wall, no hit box and no placeholder.
\<close>

theorem missing_texture_drops_kind:
  assumes "k \<noteq> ''grass''" and "textures s ''grass'' \<noteq> None"
  shows "\<exists>cs w cs' w'.
       create_chunk R s cx cy = Inr (cs, w)
     \<and> create_chunk R (s\<lparr>textures := (textures s)(k := None)\<rparr>) cx cy = Inr (cs', w')
     \<and> ground cs' = ground cs
     \<and> objects cs = concat (map (objects \<circ> placed s) (chunk_elements R s cx cy))
     \<and> walls cs = concat (map (walls \<circ> placed s) (chunk_elements R s cx cy))
     \<and> objects cs' = concat (map (objects \<circ> placed s)
                                (filter (other_kind k) (chunk_elements R s cx cy)))
     \<and> walls cs' = concat (map (walls \<circ> placed s)
                              (filter (other_kind k) (chunk_elements R s cx cy)))
     \<and> placed (s\<lparr>textures := (textures s)(k := None)\<rparr>) (tx, ty, Some k)
           = \<lparr>ground = [], objects = [], walls = []\<rparr>"
proof -
  let ?s' = "s\<lparr>textures := (textures s)(k := None)\<rparr>"
  let ?E = "chunk_elements R s cx cy"
  from assms(2) obtain g where g: "textures s ''grass'' = Some g" by auto
  have g': "textures ?s' ''grass'' = Some g" using g assms(1) by simp
  from create_chunk_explicit [OF g, of R cx cy] obtain w
    where 1: "create_chunk R s cx cy = Inr (chunk_part g s ?E, w)" by blast
  from create_chunk_explicit [OF g', of R cx cy] obtain w'
    where 2: "create_chunk R ?s' cx cy = Inr (chunk_part g ?s' ?E, w')"
    by (auto simp: chunk_elements_removed)
  have 3: "ground (chunk_part g ?s' ?E) = ground (chunk_part g s ?E)"
    by (simp add: chunk_part_def)
  have 4: "objects (chunk_part g s ?E) = concat (map (objects \<circ> placed s) ?E)"
    and 5: "walls (chunk_part g s ?E) = concat (map (walls \<circ> placed s) ?E)"
    by (simp_all add: chunk_part_def)
  have 6: "objects (chunk_part g ?s' ?E)
             = concat (map (objects \<circ> placed s) (filter (other_kind k) ?E))"
    unfolding chunk_part_def using concat_removed [of objects s k ?E] by simp
  have 7: "walls (chunk_part g ?s' ?E)
             = concat (map (walls \<circ> placed s) (filter (other_kind k) ?E))"
    unfolding chunk_part_def using concat_removed [of walls s k ?E] by simp
  have 8: "placed ?s' (tx, ty, Some k) = \<lparr>ground = [], objects = [], walls = []\<rparr>"
    by (rule placed_missing) simp
  show ?thesis
    by (intro exI [of _ "chunk_part g s ?E"] exI [of _ w] exI [of _ "chunk_part g ?s' ?E"]
          exI [of _ w'] conjI 1 2 3 4 5 6 7 8)
qed

theorem missing_texture_drops_kind_witness:
  "\<exists>cs w cs' w'.
       create_chunk no_draws (start_window full_table ''quantum'') 0 (- 1) = Inr (cs, w)
     \<and> create_chunk no_draws
          ((start_window full_table ''quantum'')\<lparr>textures := full_table(''stone_tall'' := None)\<rparr>)
          0 (- 1) = Inr (cs', w')
     \<and> ground cs' = ground cs
     \<and> walls cs = concat (map (walls \<circ> placed (start_window full_table ''quantum''))
                            (chunk_elements no_draws (start_window full_table ''quantum'') 0 (- 1)))
     \<and> walls cs' = concat (map (walls \<circ> placed (start_window full_table ''quantum''))
                             (filter (other_kind ''stone_tall'')
                                (chunk_elements no_draws (start_window full_table ''quantum'') 0 (- 1))))
     \<and> full_table ''stone_tall'' \<noteq> None"
proof -
  let ?s = "start_window full_table ''quantum''"
  have 1: "''stone_tall'' \<noteq> ''grass''" by simp
  have 2: "textures ?s ''grass'' \<noteq> None"
    by (simp add: start_window_def full_table_def texture_files_def)
  have 3: "textures ?s = full_table" by (simp add: start_window_def)
  have 4: "full_table ''stone_tall'' \<noteq> None"
    by (simp add: full_table_def texture_files_def)
  from missing_texture_drops_kind [where k = "''stone_tall''" and s = ?s and R = no_draws
      and cx = 0 and cy = "- 1" and tx = 0 and ty = 0, OF 1 2]
  obtain cs w cs' w' where
    a: "create_chunk no_draws ?s 0 (- 1) = Inr (cs, w)"
    and b: "create_chunk no_draws (?s\<lparr>textures := (textures ?s)(''stone_tall'' := None)\<rparr>) 0 (- 1)
              = Inr (cs', w')"
    and c: "ground cs' = ground cs"
    and d: "walls cs = concat (map (walls \<circ> placed ?s) (chunk_elements no_draws ?s 0 (- 1)))"
    and e: "walls cs' = concat (map (walls \<circ> placed ?s)
                             (filter (other_kind ''stone_tall'') (chunk_elements no_draws ?s 0 (- 1))))"
    by (elim exE conjE)
  show ?thesis
    by (intro exI [of _ cs] exI [of _ w] exI [of _ cs'] exI [of _ w'] conjI a b [unfolded 3] c d e 4)
qed

lemma stone_tile: "(0, - 3) \<in> set (chunk_tiles 0 (- 1))"
proof -
  have "(0 :: int) \<in> set (py_range 0 CHUNK_SIZE)" and "(13 :: int) \<in> set (py_range 0 CHUNK_SIZE)"
    by (simp_all add: py_range_def CHUNK_SIZE_def)
  then have "(0, 13) \<in> set (List.product (py_range 0 CHUNK_SIZE) (py_range 0 CHUNK_SIZE))"
    by simp
  then have "(\<lambda>(x, y). (0 * CHUNK_SIZE + x, - 1 * CHUNK_SIZE + y)) (0, 13) \<in> set (chunk_tiles 0 (- 1))"
    unfolding chunk_tiles_def by (metis (no_types, lifting) image_eqI set_map mult_minus1 mult_zero_left)
  then show ?thesis by (simp add: CHUNK_SIZE_def)
qed

lemma placed_wall_texture:
  assumes "sp \<in> set (walls (placed s el))"
  shows "\<exists>k. textures s k = Some (texture sp)"
  using assms
  by (auto simp: placed_def place_element_def Let_def split: option.splits if_splits)

lemma has_collision_stone_tall: "has_collision ''stone_tall''"
  by (simp add: has_collision_def collision_types_def)

text \<open>
  C6, as the claim has it, fails. In the quantum mode the tile \<open>(0, -3)\<close> of chunk
  \<open>(0, -1)\<close> is a tall stone. When every file loads, \<open>load_textures\<close> leaves \<open>full_table\<close>
  and the chunk has the wall of that stone. When the load of \<^verbatim>\<open>stone_tallG_NE.png\<close> raises,
  \<open>load_textures\<close> leaves \<open>trees_table\<close> and the walls of the same chunk are other ones: the
  stone's wall is not among them.
\<close>

theorem missing_texture_changes_walls:
  "load_textures every_file Map.empty = Inr full_table
   \<and> load_textures but_stone_tall Map.empty = Inr trees_table
   \<and> map_sum id (walls \<circ> fst) (create_chunk no_draws (start_window full_table ''quantum'') 0 (- 1))
       \<noteq> map_sum id (walls \<circ> fst) (create_chunk no_draws (start_window trees_table ''quantum'') 0 (- 1))"
proof -
  let ?s = "start_window full_table ''quantum''"
  let ?t = "start_window trees_table ''quantum''"
  have gs: "textures ?s ''grass'' = Some ''assets/terrain/ground_grass_NE.png''"
    by (simp add: start_window_def full_table_def texture_files_def)
  have gt: "textures ?t ''grass'' = Some '':resources:images/tiles/grassCenter.png''"
    by (simp add: start_window_def trees_table_def)
  have ms: "terrain_mode ?s = ''quantum''" and mt: "terrain_mode ?t = ''quantum''"
    by (simp_all add: start_window_def)
  from create_chunk_explicit [OF gs, of no_draws 0 "- 1"] obtain w where
    cs: "create_chunk no_draws ?s 0 (- 1)
           = Inr (chunk_part ''assets/terrain/ground_grass_NE.png'' ?s (chunk_elements no_draws ?s 0 (- 1)), w)"
    by blast
  from create_chunk_explicit [OF gt, of no_draws 0 "- 1"] obtain w' where
    ct: "create_chunk no_draws ?t 0 (- 1)
           = Inr (chunk_part '':resources:images/tiles/grassCenter.png'' ?t (chunk_elements no_draws ?t 0 (- 1)), w')"
    by blast
  define W where "W = \<lparr>texture = ''assets/terrain/stone_tallG_NE.png'',
      center_x = fst (iso_to_screen 0 (- 3)), center_y = snd (iso_to_screen 0 (- 3)),
      iso_x = Some 0, iso_y = Some (- 3),
      hit_box = Some \<lparr>points = get_hitbox_for_element ''stone_tall'',
                       position = (fst (iso_to_screen 0 (- 3)), snd (iso_to_screen 0 (- 3)))\<rparr>\<rparr>"
  have el: "(0, - 3, Some ''stone_tall'') \<in> set (chunk_elements no_draws ?s 0 (- 1))"
  proof -
    have "(\<lambda>t. (fst t, snd t, quantum_terrain (fst t) (snd t))) (0, - 3)
            \<in> set (chunk_elements no_draws ?s 0 (- 1))"
      unfolding chunk_elements_quantum [OF ms] using stone_tile by (simp only: set_map image_eqI)
    then show ?thesis by (simp add: quantum_terrain_stone)
  qed
  have "walls (placed ?s (0, - 3, Some ''stone_tall'')) = [W]"
    using has_collision_stone_tall
    by (simp add: placed_def place_element_def Let_def start_window_def full_table_def
        texture_files_def W_def)
  then have "W \<in> set ((walls \<circ> placed ?s) (0, - 3, Some ''stone_tall''))" by simp
  with el have inW: "W \<in> set (walls (chunk_part ''assets/terrain/ground_grass_NE.png'' ?s
                                   (chunk_elements no_draws ?s 0 (- 1))))"
    unfolding chunk_part_def by (auto simp del: comp_apply)
  have notW: "W \<notin> set (walls (chunk_part '':resources:images/tiles/grassCenter.png'' ?t
                                   (chunk_elements no_draws ?t 0 (- 1))))"
  proof
    assume "W \<in> set (walls (chunk_part '':resources:images/tiles/grassCenter.png'' ?t
                                   (chunk_elements no_draws ?t 0 (- 1))))"
    then obtain el where "W \<in> set (walls (placed ?t el))"
      by (auto simp: chunk_part_def)
    from placed_wall_texture [OF this] obtain k
      where "textures ?t k = Some ''assets/terrain/stone_tallG_NE.png''"
      by (auto simp: W_def)
    then show False
      by (simp add: start_window_def trees_table_def texture_files_def split: if_splits)
  qed
  from inW notW have "walls (chunk_part ''assets/terrain/ground_grass_NE.png'' ?s
                                   (chunk_elements no_draws ?s 0 (- 1)))
      \<noteq> walls (chunk_part '':resources:images/tiles/grassCenter.png'' ?t
                                   (chunk_elements no_draws ?t 0 (- 1)))"
    by metis
  then show ?thesis
    by (simp add: load_full load_trees cs ct)
qed

end
